theory Spec2Isabelle
  imports Complex_Main
begin

section \<open>Customer segmentation: log transform, cluster analysis and decision rule\<close>

text \<open>
  A shallow embedding of \<^verbatim>\<open>streamlit_app.py\<close>: the log(1+x) transform applied to twelve
  columns (lines 43-50 and 294-301), the per-cluster analysis of the reference data
  (lines 59-78) and the decision rule \<^verbatim>\<open>create_cluster_description\<close> (lines 80-227).
  The fitted scaler, PCA and k-means objects are loaded from disk by the program; here
  they are parameters. So are two functions of the numeric libraries whose results are
  not fixed by the program: the logarithm of a positive float64 (\<open>log64\<close>) and the mean of
  a column (\<open>mean64\<close>).
\<close>

subsection \<open>Floating-point values\<close>

text \<open>
  A float64 is a finite value, an infinity or NaN. A finite value is the real number it
  stands for; the two zeros are not told apart. An arithmetic operation rounds its exact
  result to the nearest float64, ties to even, as IEEE 754 prescribes.
\<close>

datatype npfloat = Fin real | PInf | NInf | NaN

text \<open>Rounding to the nearest integer, a tie to the even one.\<close>

definition round_even :: "real \<Rightarrow> int" where
  "round_even t =
     (let f = \<lfloor>t\<rfloor>; d = t - of_int f
      in if d < 1 / 2 then f else if 1 / 2 < d then f + 1 else if even f then f else f + 1)"

text \<open>
  Around \<open>x\<close> the float64 values are the multiples of \<open>2 ^ e\<close>, where \<open>e\<close> leaves 53 bits
  to the significand and is never below \<open>-1074\<close> (the subnormal range).
\<close>

definition f64_exponent :: "real \<Rightarrow> int" where
  "f64_exponent x = max (\<lfloor>log 2 \<bar>x\<bar>\<rfloor> - 52) (- 1074)"

definition f64_nearest :: "real \<Rightarrow> real" where
  "f64_nearest x = of_int (round_even (x / 2 powi f64_exponent x)) * 2 powi f64_exponent x"

text \<open>The float64 result of an operation whose exact result is \<open>x\<close>; it overflows to an infinity.\<close>

definition f64_round :: "real \<Rightarrow> npfloat" where
  "f64_round x =
     (if x = 0 then Fin 0
      else if 2 ^ 1024 \<le> \<bar>f64_nearest x\<bar> then (if 0 < x then PInf else NInf)
      else Fin (f64_nearest x))"


fun np_add :: "npfloat \<Rightarrow> npfloat \<Rightarrow> npfloat" where
  "np_add NaN _ = NaN"
| "np_add _ NaN = NaN"
| "np_add PInf NInf = NaN"
| "np_add NInf PInf = NaN"
| "np_add PInf _ = PInf"
| "np_add _ PInf = PInf"
| "np_add NInf _ = NInf"
| "np_add _ NInf = NInf"
| "np_add (Fin a) (Fin b) = f64_round (a + b)"

text \<open>
  \<^verbatim>\<open>np.log\<close>: \<open>-inf\<close> at zero and NaN below it (numpy warns, it does not raise). For a
  positive finite argument the result is the library's, \<open>log64\<close>.
\<close>

fun np_log :: "(real \<Rightarrow> real) \<Rightarrow> npfloat \<Rightarrow> npfloat" where
  "np_log log64 (Fin x) = (if 0 < x then Fin (log64 x) else if x = 0 then NInf else NaN)"
| "np_log log64 PInf = PInf"
| "np_log log64 NInf = NaN"
| "np_log log64 NaN = NaN"

text \<open>\<^verbatim>\<open>value > c\<close> for a float constant \<open>c\<close>; a comparison with NaN is false.\<close>

fun np_gt :: "npfloat \<Rightarrow> real \<Rightarrow> bool" where
  "np_gt (Fin x) c = (c < x)"
| "np_gt PInf c = True"
| "np_gt NInf c = False"
| "np_gt NaN c = False"

text \<open>A finite value that is not negative, as every input widget requires.\<close>

fun finite_nonneg :: "npfloat \<Rightarrow> bool" where
  "finite_nonneg (Fin x) = (0 \<le> x)"
| "finite_nonneg _ = False"

subsection \<open>64-bit integers\<close>

text \<open>
  The entries of an int64 column are integers; an addition in the column wraps around
  at \<open>2 ^ 63\<close>. Where numpy needs a float, the integer is converted to the nearest one.
\<close>

definition wrap_int64 :: "int \<Rightarrow> int" where
  "wrap_int64 k = (k + 2 ^ 63) mod 2 ^ 64 - 2 ^ 63"

definition int64_to_float :: "int \<Rightarrow> npfloat" where
  "int64_to_float k = f64_round (of_int k)"

subsection \<open>Errors\<close>

datatype error =
  KeyError string | KeyError_id int | ValueError | ZeroDivisionError | OverflowError

definition bindE :: "error + 'a \<Rightarrow> ('a \<Rightarrow> error + 'b) \<Rightarrow> error + 'b" where
  "bindE r f = (case r of Inl e \<Rightarrow> Inl e | Inr x \<Rightarrow> f x)"

subsection \<open>Series and data frames\<close>

text \<open>
  A Series of means, and the dict \<^verbatim>\<open>input_data\<close>, map column names to values; reading a
  missing label raises KeyError.
\<close>

type_synonym series = "string \<rightharpoonup> npfloat"

definition getitem :: "series \<Rightarrow> string \<Rightarrow> error + npfloat" where
  "getitem s k = (case s k of None \<Rightarrow> Inl (KeyError k) | Some v \<Rightarrow> Inr v)"

text \<open>The arguments of a \<^verbatim>\<open>str.format\<close> call, evaluated left to right.\<close>

fun getitems :: "series \<Rightarrow> string list \<Rightarrow> error + npfloat list" where
  "getitems s [] = Inr []"
| "getitems s (k # ks) =
     bindE (getitem s k) (\<lambda>v. bindE (getitems s ks) (\<lambda>vs. Inr (v # vs)))"

text \<open>
  A DataFrame is column-oriented: an index of \<open>nrows\<close> rows and named columns, every
  column holding one entry per row. A column is of dtype float64 or int64.
\<close>

datatype column = Float64 "npfloat list" | Int64 "int list"

fun column_length :: "column \<Rightarrow> nat" where
  "column_length (Float64 xs) = length xs"
| "column_length (Int64 ks) = length ks"

record dataframe =
  nrows :: nat
  columns :: "string \<rightharpoonup> column"

text \<open>
  The values of \<^verbatim>\<open>input_data\<close>: a widget returns a Python float or, for the two
  transaction counts and the tenure, a Python int.
\<close>

datatype pyvalue = PyFloat npfloat | PyInt int

text \<open>
  \<^verbatim>\<open>pd.DataFrame([input_data])\<close>: a frame of one row. A float makes a float64 column,
  an int an int64 column (for an int that fits 64 bits, as those of the widgets do).
\<close>

fun column1 :: "pyvalue \<Rightarrow> column" where
  "column1 (PyFloat x) = Float64 [x]"
| "column1 (PyInt k) = Int64 [k]"

definition DataFrame1 :: "(string \<rightharpoonup> pyvalue) \<Rightarrow> dataframe" where
  "DataFrame1 d = \<lparr>nrows = 1, columns = (\<lambda>k. map_option column1 (d k))\<rparr>"

definition df_getitem :: "dataframe \<Rightarrow> string \<Rightarrow> error + column" where
  "df_getitem df col =
     (case columns df col of None \<Rightarrow> Inl (KeyError col) | Some c \<Rightarrow> Inr c)"

text \<open>
  \<^verbatim>\<open>df[col] = values\<close> for an array of values: pandas raises ValueError when the length
  of the array is not the length of the index.
\<close>

definition df_setitem :: "dataframe \<Rightarrow> string \<Rightarrow> column \<Rightarrow> error + dataframe" where
  "df_setitem df col c =
     (if column_length c \<noteq> nrows df then Inl ValueError
      else Inr (df\<lparr>columns := (columns df)(col \<mapsto> c)\<rparr>))"

subsection \<open>The log transform\<close>

text \<open>Lines 43-46: \<^verbatim>\<open>cols_log\<close> of \<^verbatim>\<open>load_data_and_analyze_clusters\<close>.\<close>

definition cols_log_analysis :: "string list" where
  "cols_log_analysis =
     [''BALANCE'', ''ONEOFF_PURCHASES'', ''INSTALLMENTS_PURCHASES'', ''CASH_ADVANCE'',
      ''ONEOFF_PURCHASES_FREQUENCY'', ''PURCHASES_INSTALLMENTS_FREQUENCY'',
      ''CASH_ADVANCE_TRX'', ''PURCHASES_TRX'', ''CREDIT_LIMIT'', ''PAYMENTS'',
      ''MINIMUM_PAYMENTS'', ''PRC_FULL_PAYMENT'']"

text \<open>Lines 294-297: \<^verbatim>\<open>cols_log\<close> of the per-request path.\<close>

definition cols_log_inference :: "string list" where
  "cols_log_inference =
     [''BALANCE'', ''ONEOFF_PURCHASES'', ''INSTALLMENTS_PURCHASES'', ''CASH_ADVANCE'',
      ''ONEOFF_PURCHASES_FREQUENCY'', ''PURCHASES_INSTALLMENTS_FREQUENCY'',
      ''CASH_ADVANCE_TRX'', ''PURCHASES_TRX'', ''CREDIT_LIMIT'', ''PAYMENTS'',
      ''MINIMUM_PAYMENTS'', ''PRC_FULL_PAYMENT'']"

text \<open>
  \<^verbatim>\<open>np.log(1 + v)\<close> for an entry of a float64 column: the sum is a float64 sum.
\<close>

definition log1p_value :: "(real \<Rightarrow> real) \<Rightarrow> npfloat \<Rightarrow> npfloat" where
  "log1p_value log64 v = np_log log64 (np_add (Fin 1) v)"

text \<open>
  For an entry of an int64 column the sum is an int64 sum, which wraps around; numpy
  converts it to float64 for the logarithm.
\<close>

definition log1p_int :: "(real \<Rightarrow> real) \<Rightarrow> int \<Rightarrow> npfloat" where
  "log1p_int log64 k = np_log log64 (int64_to_float (wrap_int64 (1 + k)))"

text \<open>The result is a float64 column whatever the dtype of the argument.\<close>

fun log1p_col :: "(real \<Rightarrow> real) \<Rightarrow> column \<Rightarrow> column" where
  "log1p_col log64 (Float64 xs) = Float64 (map (log1p_value log64) xs)"
| "log1p_col log64 (Int64 ks) = Float64 (map (log1p_int log64) ks)"

text \<open>
  One iteration of the loop, \<^verbatim>\<open>df[col] = np.log(1 + df[col])\<close>: the column is read
  (KeyError when the frame has no such column), transformed entry by entry and stored
  under the same name. There is no check of the values.
\<close>

definition log_col :: "(real \<Rightarrow> real) \<Rightarrow> string \<Rightarrow> dataframe \<Rightarrow> error + dataframe" where
  "log_col log64 col df =
     bindE (df_getitem df col)
       (\<lambda>c. Inr (df\<lparr>columns := (columns df)(col \<mapsto> log1p_col log64 c)\<rparr>))"

text \<open>The loop \<^verbatim>\<open>for col in cols_log\<close>; the first missing column stops it.\<close>

fun log_transform_cols ::
  "(real \<Rightarrow> real) \<Rightarrow> string list \<Rightarrow> dataframe \<Rightarrow> error + dataframe" where
  "log_transform_cols log64 [] df = Inr df"
| "log_transform_cols log64 (col # cols) df =
     bindE (log_col log64 col df) (log_transform_cols log64 cols)"

text \<open>Lines 48-50 (reference data) and lines 291-301 (one input vector).\<close>

definition transform_analysis :: "(real \<Rightarrow> real) \<Rightarrow> dataframe \<Rightarrow> error + dataframe" where
  "transform_analysis log64 df = log_transform_cols log64 cols_log_analysis df"

definition transform_inference ::
  "(real \<Rightarrow> real) \<Rightarrow> (string \<rightharpoonup> pyvalue) \<Rightarrow> error + dataframe" where
  "transform_inference log64 input_data =
     log_transform_cols log64 cols_log_inference (DataFrame1 input_data)"

subsection \<open>The decision rule\<close>

text \<open>
  A description is the dict returned by \<^verbatim>\<open>create_cluster_description\<close>. Names and tags
  are the UTF-8 bytes of the Russian literals of the source. The long narrative is a
  template literal filled by \<^verbatim>\<open>str.format\<close>; it is kept as the template's identity
  together with the values passed to \<^verbatim>\<open>format\<close>, in order (the rendering of floats as
  text is not modelled).
\<close>

datatype template =
    Template_active_solvent         \<comment> \<open>literal of lines 97-110\<close>
  | Template_active_installments    \<comment> \<open>literal of lines 120-133\<close>
  | Template_moderate               \<comment> \<open>literal of lines 143-156\<close>
  | Template_cash_advance           \<comment> \<open>literal of lines 166-179\<close>
  | Template_low_activity           \<comment> \<open>literal of lines 190-204\<close>
  | Template_unusual                \<comment> \<open>literal of lines 214-225\<close>

record description =
  name :: string
  description :: "template \<times> npfloat list"
  key_features :: "string list"

text \<open>Line 96; the specification calls it "Active solvent customers".\<close>

definition name_active_solvent :: string where
  "name_active_solvent =
    [CHR 0xD0, CHR 0x90, CHR 0xD0, CHR 0xBA, CHR 0xD1, CHR 0x82, CHR 0xD0, CHR 0xB8,
     CHR 0xD0, CHR 0xB2, CHR 0xD0, CHR 0xBD, CHR 0xD1, CHR 0x8B, CHR 0xD0, CHR 0xB5,
     CHR '' '', CHR 0xD0, CHR 0xBF, CHR 0xD0, CHR 0xBB, CHR 0xD0, CHR 0xB0, CHR 0xD1,
     CHR 0x82, CHR 0xD0, CHR 0xB5, CHR 0xD0, CHR 0xB6, CHR 0xD0, CHR 0xB5, CHR 0xD1,
     CHR 0x81, CHR 0xD0, CHR 0xBF, CHR 0xD0, CHR 0xBE, CHR 0xD1, CHR 0x81, CHR 0xD0,
     CHR 0xBE, CHR 0xD0, CHR 0xB1, CHR 0xD0, CHR 0xBD, CHR 0xD1, CHR 0x8B, CHR 0xD0,
     CHR 0xB5, CHR '' '', CHR 0xD0, CHR 0xBA, CHR 0xD0, CHR 0xBB, CHR 0xD0, CHR 0xB8,
     CHR 0xD0, CHR 0xB5, CHR 0xD0, CHR 0xBD, CHR 0xD1, CHR 0x82, CHR 0xD1, CHR 0x8B]"

text \<open>Line 115.\<close>

definition tags_active_solvent :: "string list" where
  "tags_active_solvent =
   [ [CHR 0xD0, CHR 0x92, CHR 0xD1, CHR 0x8B, CHR 0xD1, CHR 0x81, CHR 0xD0, CHR 0xBE,
     CHR 0xD0, CHR 0xBA, CHR 0xD0, CHR 0xB0, CHR 0xD1, CHR 0x8F, CHR '' '', CHR 0xD0,
     CHR 0xB0, CHR 0xD0, CHR 0xBA, CHR 0xD1, CHR 0x82, CHR 0xD0, CHR 0xB8, CHR 0xD0,
     CHR 0xB2, CHR 0xD0, CHR 0xBD, CHR 0xD0, CHR 0xBE, CHR 0xD1, CHR 0x81, CHR 0xD1,
     CHR 0x82, CHR 0xD1, CHR 0x8C],
    [CHR 0xD0, CHR 0x9E, CHR 0xD1, CHR 0x82, CHR 0xD0, CHR 0xB2, CHR 0xD0, CHR 0xB5,
     CHR 0xD1, CHR 0x82, CHR 0xD1, CHR 0x81, CHR 0xD1, CHR 0x82, CHR 0xD0, CHR 0xB2,
     CHR 0xD0, CHR 0xB5, CHR 0xD0, CHR 0xBD, CHR 0xD0, CHR 0xBD, CHR 0xD1, CHR 0x8B,
     CHR 0xD0, CHR 0xB5, CHR '' '', CHR 0xD0, CHR 0xBF, CHR 0xD0, CHR 0xBB, CHR 0xD0,
     CHR 0xB0, CHR 0xD1, CHR 0x82, CHR 0xD0, CHR 0xB5, CHR 0xD0, CHR 0xB6, CHR 0xD0,
     CHR 0xB8],
    [CHR 0xD0, CHR 0x92, CHR 0xD1, CHR 0x8B, CHR 0xD1, CHR 0x81, CHR 0xD0, CHR 0xBE,
     CHR 0xD0, CHR 0xBA, CHR 0xD0, CHR 0xB8, CHR 0xD0, CHR 0xB9, CHR '' '', CHR 0xD0,
     CHR 0xBE, CHR 0xD0, CHR 0xB1, CHR 0xD0, CHR 0xBE, CHR 0xD1, CHR 0x80, CHR 0xD0,
     CHR 0xBE, CHR 0xD1, CHR 0x82] ]"

text \<open>Line 119; "Active customers using installments".\<close>

definition name_active_installments :: string where
  "name_active_installments =
    [CHR 0xD0, CHR 0x90, CHR 0xD0, CHR 0xBA, CHR 0xD1, CHR 0x82, CHR 0xD0, CHR 0xB8,
     CHR 0xD0, CHR 0xB2, CHR 0xD0, CHR 0xBD, CHR 0xD1, CHR 0x8B, CHR 0xD0, CHR 0xB5,
     CHR '' '', CHR 0xD0, CHR 0xBA, CHR 0xD0, CHR 0xBB, CHR 0xD0, CHR 0xB8, CHR 0xD0,
     CHR 0xB5, CHR 0xD0, CHR 0xBD, CHR 0xD1, CHR 0x82, CHR 0xD1, CHR 0x8B, CHR '' '',
     CHR 0xD1, CHR 0x81, CHR '' '', CHR 0xD1, CHR 0x80, CHR 0xD0, CHR 0xB0, CHR 0xD1,
     CHR 0x81, CHR 0xD1, CHR 0x81, CHR 0xD1, CHR 0x80, CHR 0xD0, CHR 0xBE, CHR 0xD1,
     CHR 0x87, CHR 0xD0, CHR 0xBA, CHR 0xD0, CHR 0xBE, CHR 0xD0, CHR 0xB9]"

text \<open>Line 138.\<close>

definition tags_active_installments :: "string list" where
  "tags_active_installments =
   [ [CHR 0xD0, CHR 0x92, CHR 0xD1, CHR 0x8B, CHR 0xD1, CHR 0x81, CHR 0xD0, CHR 0xBE,
     CHR 0xD0, CHR 0xBA, CHR 0xD0, CHR 0xB0, CHR 0xD1, CHR 0x8F, CHR '' '', CHR 0xD0,
     CHR 0xB0, CHR 0xD0, CHR 0xBA, CHR 0xD1, CHR 0x82, CHR 0xD0, CHR 0xB8, CHR 0xD0,
     CHR 0xB2, CHR 0xD0, CHR 0xBD, CHR 0xD0, CHR 0xBE, CHR 0xD1, CHR 0x81, CHR 0xD1,
     CHR 0x82, CHR 0xD1, CHR 0x8C],
    [CHR 0xD0, CHR 0x98, CHR 0xD1, CHR 0x81, CHR 0xD0, CHR 0xBF, CHR 0xD0, CHR 0xBE,
     CHR 0xD0, CHR 0xBB, CHR 0xD1, CHR 0x8C, CHR 0xD0, CHR 0xB7, CHR 0xD0, CHR 0xBE,
     CHR 0xD0, CHR 0xB2, CHR 0xD0, CHR 0xB0, CHR 0xD0, CHR 0xBD, CHR 0xD0, CHR 0xB8,
     CHR 0xD0, CHR 0xB5, CHR '' '', CHR 0xD1, CHR 0x80, CHR 0xD0, CHR 0xB0, CHR 0xD1,
     CHR 0x81, CHR 0xD1, CHR 0x81, CHR 0xD1, CHR 0x80, CHR 0xD0, CHR 0xBE, CHR 0xD1,
     CHR 0x87, CHR 0xD0, CHR 0xBA, CHR 0xD0, CHR 0xB8],
    [CHR 0xD0, CHR 0xA0, CHR 0xD0, CHR 0xB5, CHR 0xD0, CHR 0xB3, CHR 0xD1, CHR 0x83,
     CHR 0xD0, CHR 0xBB, CHR 0xD1, CHR 0x8F, CHR 0xD1, CHR 0x80, CHR 0xD0, CHR 0xBD,
     CHR 0xD1, CHR 0x8B, CHR 0xD0, CHR 0xB5, CHR '' '', CHR 0xD0, CHR 0xBF, CHR 0xD0,
     CHR 0xBE, CHR 0xD0, CHR 0xBA, CHR 0xD1, CHR 0x83, CHR 0xD0, CHR 0xBF, CHR 0xD0,
     CHR 0xBA, CHR 0xD0, CHR 0xB8] ]"

text \<open>Line 142; "Moderate users".\<close>

definition name_moderate :: string where
  "name_moderate =
    [CHR 0xD0, CHR 0xA3, CHR 0xD0, CHR 0xBC, CHR 0xD0, CHR 0xB5, CHR 0xD1, CHR 0x80,
     CHR 0xD0, CHR 0xB5, CHR 0xD0, CHR 0xBD, CHR 0xD0, CHR 0xBD, CHR 0xD1, CHR 0x8B,
     CHR 0xD0, CHR 0xB5, CHR '' '', CHR 0xD0, CHR 0xBF, CHR 0xD0, CHR 0xBE, CHR 0xD0,
     CHR 0xBB, CHR 0xD1, CHR 0x8C, CHR 0xD0, CHR 0xB7, CHR 0xD0, CHR 0xBE, CHR 0xD0,
     CHR 0xB2, CHR 0xD0, CHR 0xB0, CHR 0xD1, CHR 0x82, CHR 0xD0, CHR 0xB5, CHR 0xD0,
     CHR 0xBB, CHR 0xD0, CHR 0xB8]"

text \<open>Line 160.\<close>

definition tags_moderate :: "string list" where
  "tags_moderate =
   [ [CHR 0xD0, CHR 0xA3, CHR 0xD0, CHR 0xBC, CHR 0xD0, CHR 0xB5, CHR 0xD1, CHR 0x80,
     CHR 0xD0, CHR 0xB5, CHR 0xD0, CHR 0xBD, CHR 0xD0, CHR 0xBD, CHR 0xD0, CHR 0xB0,
     CHR 0xD1, CHR 0x8F, CHR '' '', CHR 0xD0, CHR 0xB0, CHR 0xD0, CHR 0xBA, CHR 0xD1,
     CHR 0x82, CHR 0xD0, CHR 0xB8, CHR 0xD0, CHR 0xB2, CHR 0xD0, CHR 0xBD, CHR 0xD0,
     CHR 0xBE, CHR 0xD1, CHR 0x81, CHR 0xD1, CHR 0x82, CHR 0xD1, CHR 0x8C],
    [CHR 0xD0, CHR 0xA1, CHR 0xD1, CHR 0x82, CHR 0xD0, CHR 0xB0, CHR 0xD0, CHR 0xB1,
     CHR 0xD0, CHR 0xB8, CHR 0xD0, CHR 0xBB, CHR 0xD1, CHR 0x8C, CHR 0xD0, CHR 0xBD,
     CHR 0xD0, CHR 0xBE, CHR 0xD0, CHR 0xB5, CHR '' '', CHR 0xD0, CHR 0xB8, CHR 0xD1,
     CHR 0x81, CHR 0xD0, CHR 0xBF, CHR 0xD0, CHR 0xBE, CHR 0xD0, CHR 0xBB, CHR 0xD1,
     CHR 0x8C, CHR 0xD0, CHR 0xB7, CHR 0xD0, CHR 0xBE, CHR 0xD0, CHR 0xB2, CHR 0xD0,
     CHR 0xB0, CHR 0xD0, CHR 0xBD, CHR 0xD0, CHR 0xB8, CHR 0xD0, CHR 0xB5],
    [CHR 0xD0, CHR 0xA0, CHR 0xD0, CHR 0xB5, CHR 0xD0, CHR 0xB3, CHR 0xD1, CHR 0x83,
     CHR 0xD0, CHR 0xBB, CHR 0xD1, CHR 0x8F, CHR 0xD1, CHR 0x80, CHR 0xD0, CHR 0xBD,
     CHR 0xD1, CHR 0x8B, CHR 0xD0, CHR 0xB5, CHR '' '', CHR 0xD0, CHR 0xBF, CHR 0xD0,
     CHR 0xBB, CHR 0xD0, CHR 0xB0, CHR 0xD1, CHR 0x82, CHR 0xD0, CHR 0xB5, CHR 0xD0,
     CHR 0xB6, CHR 0xD0, CHR 0xB8] ]"

text \<open>Line 165; "Cash-advance customers".\<close>

definition name_cash_advance :: string where
  "name_cash_advance =
    [CHR 0xD0, CHR 0x9A, CHR 0xD0, CHR 0xBB, CHR 0xD0, CHR 0xB8, CHR 0xD0, CHR 0xB5,
     CHR 0xD0, CHR 0xBD, CHR 0xD1, CHR 0x82, CHR 0xD1, CHR 0x8B, CHR '' '', CHR 0xD1,
     CHR 0x81, CHR '' '', CHR 0xD0, CHR 0xB4, CHR 0xD0, CHR 0xB5, CHR 0xD0, CHR 0xBD,
     CHR 0xD0, CHR 0xB5, CHR 0xD0, CHR 0xB6, CHR 0xD0, CHR 0xBD, CHR 0xD1, CHR 0x8B,
     CHR 0xD0, CHR 0xBC, CHR 0xD0, CHR 0xB8, CHR '' '', CHR 0xD0, CHR 0xB0, CHR 0xD0,
     CHR 0xB2, CHR 0xD0, CHR 0xB0, CHR 0xD0, CHR 0xBD, CHR 0xD1, CHR 0x81, CHR 0xD0,
     CHR 0xB0, CHR 0xD0, CHR 0xBC, CHR 0xD0, CHR 0xB8]"

text \<open>Line 185.\<close>

definition tags_cash_advance :: "string list" where
  "tags_cash_advance =
   [ [CHR 0xD0, CHR 0x94, CHR 0xD0, CHR 0xB5, CHR 0xD0, CHR 0xBD, CHR 0xD0, CHR 0xB5,
     CHR 0xD0, CHR 0xB6, CHR 0xD0, CHR 0xBD, CHR 0xD1, CHR 0x8B, CHR 0xD0, CHR 0xB5,
     CHR '' '', CHR 0xD0, CHR 0xB0, CHR 0xD0, CHR 0xB2, CHR 0xD0, CHR 0xB0, CHR 0xD0,
     CHR 0xBD, CHR 0xD1, CHR 0x81, CHR 0xD1, CHR 0x8B],
    [CHR 0xD0, CHR 0x9D, CHR 0xD0, CHR 0xB8, CHR 0xD0, CHR 0xB7, CHR 0xD0, CHR 0xBA,
     CHR 0xD0, CHR 0xB0, CHR 0xD1, CHR 0x8F, CHR '' '', CHR 0xD0, CHR 0xB0, CHR 0xD0,
     CHR 0xBA, CHR 0xD1, CHR 0x82, CHR 0xD0, CHR 0xB8, CHR 0xD0, CHR 0xB2, CHR 0xD0,
     CHR 0xBD, CHR 0xD0, CHR 0xBE, CHR 0xD1, CHR 0x81, CHR 0xD1, CHR 0x82, CHR 0xD1,
     CHR 0x8C, CHR '' '', CHR 0xD0, CHR 0xBF, CHR 0xD0, CHR 0xBE, CHR 0xD0, CHR 0xBA,
     CHR 0xD1, CHR 0x83, CHR 0xD0, CHR 0xBF, CHR 0xD0, CHR 0xBE, CHR 0xD0, CHR 0xBA],
    [CHR 0xD0, CHR 0xA2, CHR 0xD1, CHR 0x80, CHR 0xD0, CHR 0xB5, CHR 0xD0, CHR 0xB1,
     CHR 0xD1, CHR 0x83, CHR 0xD0, CHR 0xB5, CHR 0xD1, CHR 0x82, CHR '' '', CHR 0xD0,
     CHR 0xB2, CHR 0xD0, CHR 0xBD, CHR 0xD0, CHR 0xB8, CHR 0xD0, CHR 0xBC, CHR 0xD0,
     CHR 0xB0, CHR 0xD0, CHR 0xBD, CHR 0xD0, CHR 0xB8, CHR 0xD1, CHR 0x8F] ]"

text \<open>Line 189; "Low-activity customers".\<close>

definition name_low_activity :: string where
  "name_low_activity =
    [CHR 0xD0, CHR 0x9C, CHR 0xD0, CHR 0xB0, CHR 0xD0, CHR 0xBB, CHR 0xD0, CHR 0xBE,
     CHR 0xD0, CHR 0xB0, CHR 0xD0, CHR 0xBA, CHR 0xD1, CHR 0x82, CHR 0xD0, CHR 0xB8,
     CHR 0xD0, CHR 0xB2, CHR 0xD0, CHR 0xBD, CHR 0xD1, CHR 0x8B, CHR 0xD0, CHR 0xB5,
     CHR '' '', CHR 0xD0, CHR 0xBA, CHR 0xD0, CHR 0xBB, CHR 0xD0, CHR 0xB8, CHR 0xD0,
     CHR 0xB5, CHR 0xD0, CHR 0xBD, CHR 0xD1, CHR 0x82, CHR 0xD1, CHR 0x8B]"

text \<open>Line 209.\<close>

definition tags_low_activity :: "string list" where
  "tags_low_activity =
   [ [CHR 0xD0, CHR 0x9D, CHR 0xD0, CHR 0xB8, CHR 0xD0, CHR 0xB7, CHR 0xD0, CHR 0xBA,
     CHR 0xD0, CHR 0xB0, CHR 0xD1, CHR 0x8F, CHR '' '', CHR 0xD0, CHR 0xB0, CHR 0xD0,
     CHR 0xBA, CHR 0xD1, CHR 0x82, CHR 0xD0, CHR 0xB8, CHR 0xD0, CHR 0xB2, CHR 0xD0,
     CHR 0xBD, CHR 0xD0, CHR 0xBE, CHR 0xD1, CHR 0x81, CHR 0xD1, CHR 0x82, CHR 0xD1,
     CHR 0x8C],
    [CHR 0xD0, CHR 0x9C, CHR 0xD0, CHR 0xB8, CHR 0xD0, CHR 0xBD, CHR 0xD0, CHR 0xB8,
     CHR 0xD0, CHR 0xBC, CHR 0xD0, CHR 0xB0, CHR 0xD0, CHR 0xBB, CHR 0xD1, CHR 0x8C,
     CHR 0xD0, CHR 0xBD, CHR 0xD0, CHR 0xBE, CHR 0xD0, CHR 0xB5, CHR '' '', CHR 0xD0,
     CHR 0xB8, CHR 0xD1, CHR 0x81, CHR 0xD0, CHR 0xBF, CHR 0xD0, CHR 0xBE, CHR 0xD0,
     CHR 0xBB, CHR 0xD1, CHR 0x8C, CHR 0xD0, CHR 0xB7, CHR 0xD0, CHR 0xBE, CHR 0xD0,
     CHR 0xB2, CHR 0xD0, CHR 0xB0, CHR 0xD0, CHR 0xBD, CHR 0xD0, CHR 0xB8, CHR 0xD0,
     CHR 0xB5],
    [CHR 0xD0, CHR 0xA2, CHR 0xD1, CHR 0x80, CHR 0xD0, CHR 0xB5, CHR 0xD0, CHR 0xB1,
     CHR 0xD1, CHR 0x83, CHR 0xD0, CHR 0xB5, CHR 0xD1, CHR 0x82, CHR '' '', CHR 0xD0,
     CHR 0xB0, CHR 0xD0, CHR 0xBA, CHR 0xD1, CHR 0x82, CHR 0xD0, CHR 0xB8, CHR 0xD0,
     CHR 0xB2, CHR 0xD0, CHR 0xB0, CHR 0xD1, CHR 0x86, CHR 0xD0, CHR 0xB8, CHR 0xD0,
     CHR 0xB8] ]"

text \<open>Line 213; "Customers with unusual behavior".\<close>

definition name_unusual :: string where
  "name_unusual =
    [CHR 0xD0, CHR 0x9A, CHR 0xD0, CHR 0xBB, CHR 0xD0, CHR 0xB8, CHR 0xD0, CHR 0xB5,
     CHR 0xD0, CHR 0xBD, CHR 0xD1, CHR 0x82, CHR 0xD1, CHR 0x8B, CHR '' '', CHR 0xD1,
     CHR 0x81, CHR '' '', CHR 0xD0, CHR 0xBE, CHR 0xD1, CHR 0x81, CHR 0xD0, CHR 0xBE,
     CHR 0xD0, CHR 0xB1, CHR 0xD1, CHR 0x8B, CHR 0xD0, CHR 0xBC, CHR '' '', CHR 0xD0,
     CHR 0xBF, CHR 0xD0, CHR 0xBE, CHR 0xD0, CHR 0xB2, CHR 0xD0, CHR 0xB5, CHR 0xD0,
     CHR 0xB4, CHR 0xD0, CHR 0xB5, CHR 0xD0, CHR 0xBD, CHR 0xD0, CHR 0xB8, CHR 0xD0,
     CHR 0xB5, CHR 0xD0, CHR 0xBC]"

text \<open>Line 226.\<close>

definition tags_unusual :: "string list" where
  "tags_unusual =
   [ [CHR 0xD0, CHR 0x9E, CHR 0xD1, CHR 0x81, CHR 0xD0, CHR 0xBE, CHR 0xD0, CHR 0xB1,
     CHR 0xD0, CHR 0xBE, CHR 0xD0, CHR 0xB5, CHR '' '', CHR 0xD0, CHR 0xBF, CHR 0xD0,
     CHR 0xBE, CHR 0xD0, CHR 0xB2, CHR 0xD0, CHR 0xB5, CHR 0xD0, CHR 0xB4, CHR 0xD0,
     CHR 0xB5, CHR 0xD0, CHR 0xBD, CHR 0xD0, CHR 0xB8, CHR 0xD0, CHR 0xB5],
    [CHR 0xD0, CHR 0xA2, CHR 0xD1, CHR 0x80, CHR 0xD0, CHR 0xB5, CHR 0xD0, CHR 0xB1,
     CHR 0xD1, CHR 0x83, CHR 0xD0, CHR 0xB5, CHR 0xD1, CHR 0x82, CHR '' '', CHR 0xD0,
     CHR 0xB0, CHR 0xD0, CHR 0xBD, CHR 0xD0, CHR 0xB0, CHR 0xD0, CHR 0xBB, CHR 0xD0,
     CHR 0xB8, CHR 0xD0, CHR 0xB7, CHR 0xD0, CHR 0xB0] ]"

text \<open>Lines 84-89: the six predicates, each a strict comparison of one mean.\<close>

definition high_balance :: "series \<Rightarrow> error + bool" where
  "high_balance means = bindE (getitem means ''BALANCE'') (\<lambda>v. Inr (np_gt v 1000))"

definition high_purchases :: "series \<Rightarrow> error + bool" where
  "high_purchases means = bindE (getitem means ''PURCHASES'') (\<lambda>v. Inr (np_gt v 1000))"

definition high_frequency :: "series \<Rightarrow> error + bool" where
  "high_frequency means =
     bindE (getitem means ''PURCHASES_FREQUENCY'') (\<lambda>v. Inr (np_gt v 0.5))"

definition uses_cash_advance :: "series \<Rightarrow> error + bool" where
  "uses_cash_advance means = bindE (getitem means ''CASH_ADVANCE'') (\<lambda>v. Inr (np_gt v 500))"

definition high_credit_limit :: "series \<Rightarrow> error + bool" where
  "high_credit_limit means =
     bindE (getitem means ''CREDIT_LIMIT'') (\<lambda>v. Inr (np_gt v 5000))"

definition pays_full :: "series \<Rightarrow> error + bool" where
  "pays_full means = bindE (getitem means ''PRC_FULL_PAYMENT'') (\<lambda>v. Inr (np_gt v 0.3))"

text \<open>One returned dict: the \<^verbatim>\<open>format\<close> arguments are read first, in order.\<close>

definition make_description ::
  "series \<Rightarrow> string \<Rightarrow> template \<Rightarrow> string list \<Rightarrow> string list \<Rightarrow> error + description" where
  "make_description means nm tmpl args tags =
     bindE (getitems means args)
       (\<lambda>vs. Inr \<lparr>name = nm, description = (tmpl, vs), key_features = tags\<rparr>)"

text \<open>
  Lines 92-227. All six predicates are computed before the branch on \<open>cluster_id\<close>, so
  each of their fields is read whatever the branch. The \<^verbatim>\<open>else\<close> of line 162 takes
  every \<open>cluster_id\<close> other than 0.
\<close>

definition create_cluster_description :: "int \<Rightarrow> series \<Rightarrow> error + description" where
  "create_cluster_description cluster_id means =
     bindE (high_balance means) (\<lambda>hb.
     bindE (high_purchases means) (\<lambda>hp.
     bindE (high_frequency means) (\<lambda>hf.
     bindE (uses_cash_advance means) (\<lambda>uca.
     bindE (high_credit_limit means) (\<lambda>hcl.
     bindE (pays_full means) (\<lambda>pf.
       if cluster_id = 0 then
         if hp \<and> hf then
           if pf then
             make_description means name_active_solvent Template_active_solvent
               [''PURCHASES_FREQUENCY'', ''PURCHASES'', ''PRC_FULL_PAYMENT'']
               tags_active_solvent
           else
             make_description means name_active_installments Template_active_installments
               [''PURCHASES_FREQUENCY'', ''PURCHASES'', ''BALANCE'']
               tags_active_installments
         else
           make_description means name_moderate Template_moderate
             [''PURCHASES_FREQUENCY'', ''PURCHASES'']
             tags_moderate
       else
         if uca \<and> \<not> hp then
           make_description means name_cash_advance Template_cash_advance
             [''CASH_ADVANCE'', ''PURCHASES_FREQUENCY'', ''CASH_ADVANCE_FREQUENCY'',
              ''CREDIT_LIMIT'']
             tags_cash_advance
         else if \<not> hp \<and> \<not> hf then
           make_description means name_low_activity Template_low_activity
             [''PURCHASES_FREQUENCY'', ''PURCHASES'', ''BALANCE'']
             tags_low_activity
         else
           make_description means name_unusual Template_unusual [] tags_unusual))))))"

subsection \<open>Cluster analysis of the reference data\<close>

text \<open>
  Lines 48-56: the frame is copied and transformed, and the three fitted stages give one
  cluster label per row. The stages are parameters of the model.
\<close>

definition predict_clusters ::
  "(real \<Rightarrow> real) \<Rightarrow> (dataframe \<Rightarrow> 'x) \<Rightarrow> ('x \<Rightarrow> 'y) \<Rightarrow> ('y \<Rightarrow> int list) \<Rightarrow> dataframe
     \<Rightarrow> error + int list" where
  "predict_clusters log64 scaler pca kmeans df =
     bindE (transform_analysis log64 df) (\<lambda>df_log. Inr (kmeans (pca (scaler df_log))))"

text \<open>\<^verbatim>\<open>df['cluster_id'] == cluster_id\<close>: one truth value per row.\<close>

fun column_eq :: "column \<Rightarrow> int \<Rightarrow> bool list" where
  "column_eq (Int64 ks) c = map (\<lambda>k. k = c) ks"
| "column_eq (Float64 xs) c = map (\<lambda>x. x = int64_to_float c) xs"

text \<open>\<^verbatim>\<open>df[mask]\<close> with a boolean mask keeps the rows where the mask is true.\<close>

definition select :: "bool list \<Rightarrow> 'a list \<Rightarrow> 'a list" where
  "select keep xs = map snd (filter fst (zip keep xs))"

fun filter_column :: "bool list \<Rightarrow> column \<Rightarrow> column" where
  "filter_column keep (Float64 xs) = Float64 (select keep xs)"
| "filter_column keep (Int64 ks) = Int64 (select keep ks)"

definition filter_rows :: "bool list \<Rightarrow> dataframe \<Rightarrow> dataframe" where
  "filter_rows keep df =
     \<lparr>nrows = length (filter id keep),
      columns = (\<lambda>k. map_option (filter_column keep) (columns df k))\<rparr>"

text \<open>
  \<^verbatim>\<open>DataFrame.mean()\<close>: the mean of every column, a float64. NaN entries are skipped
  (\<^verbatim>\<open>skipna=True\<close> is the default) and the mean of no entries is NaN. The order and the
  rounding of the summation are pandas' own: \<open>mean64\<close> is the mean it computes for a
  column that is not empty and holds no NaN (an int64 column is summed as floats).
\<close>

fun column_mean :: "(npfloat list \<Rightarrow> npfloat) \<Rightarrow> column \<Rightarrow> npfloat" where
  "column_mean mean64 (Float64 xs) =
     (let ys = filter (\<lambda>v. v \<noteq> NaN) xs in if ys = [] then NaN else mean64 ys)"
| "column_mean mean64 (Int64 ks) =
     (if ks = [] then NaN else mean64 (map int64_to_float ks))"

definition df_mean :: "(npfloat list \<Rightarrow> npfloat) \<Rightarrow> dataframe \<Rightarrow> series" where
  "df_mean mean64 df = (\<lambda>k. map_option (column_mean mean64) (columns df k))"

text \<open>
  \<^verbatim>\<open>a / b\<close> for two Python ints: ZeroDivisionError for a zero divisor, the float64
  nearest to the quotient otherwise, OverflowError when that is not finite.
\<close>

definition int_truediv :: "int \<Rightarrow> int \<Rightarrow> error + real" where
  "int_truediv a b =
     (if b = 0 then Inl ZeroDivisionError
      else case f64_round (of_int a / of_int b) of
             Fin q \<Rightarrow> Inr q
           | _ \<Rightarrow> Inl OverflowError)"

text \<open>Line 75: \<^verbatim>\<open>len(cluster_data) / len(df) * 100\<close>, a division and then a product of floats.\<close>

definition percentage :: "nat \<Rightarrow> nat \<Rightarrow> error + npfloat" where
  "percentage part whole =
     bindE (int_truediv (int part) (int whole)) (\<lambda>q. Inr (f64_round (q * 100)))"

text \<open>
  The dict stored at \<^verbatim>\<open>cluster_analysis[cluster_id]\<close> (lines 71-76), with its keys
  \<^verbatim>\<open>means\<close>, \<^verbatim>\<open>description\<close>, \<^verbatim>\<open>size\<close> and \<^verbatim>\<open>percentage\<close>.
\<close>

record cluster_info =
  info_means :: series
  info_description :: description
  info_size :: nat
  info_percentage :: npfloat

text \<open>The body of the loop, lines 65-76.\<close>

definition analyze_cluster ::
  "(npfloat list \<Rightarrow> npfloat) \<Rightarrow> dataframe \<Rightarrow> int \<Rightarrow> error + cluster_info" where
  "analyze_cluster mean64 df cluster_id =
     bindE (df_getitem df ''cluster_id'') (\<lambda>ids.
       let cluster_data = filter_rows (column_eq ids cluster_id) df;
           cluster_means = df_mean mean64 cluster_data
       in bindE (create_cluster_description cluster_id cluster_means) (\<lambda>d.
          bindE (percentage (nrows cluster_data) (nrows df)) (\<lambda>p.
            Inr \<lparr>info_means = cluster_means,
                 info_description = d,
                 info_size = nrows cluster_data,
                 info_percentage = p\<rparr>)))"

text \<open>The loop of line 64 over a list of cluster ids, filling the dict.\<close>

fun analyze_loop ::
  "(npfloat list \<Rightarrow> npfloat) \<Rightarrow> dataframe \<Rightarrow> int list \<Rightarrow> (int \<rightharpoonup> cluster_info)
     \<Rightarrow> error + (int \<rightharpoonup> cluster_info)" where
  "analyze_loop mean64 df [] cluster_analysis = Inr cluster_analysis"
| "analyze_loop mean64 df (cluster_id # rest) cluster_analysis =
     bindE (analyze_cluster mean64 df cluster_id)
       (\<lambda>info. analyze_loop mean64 df rest (cluster_analysis(cluster_id \<mapsto> info)))"

text \<open>
  Lines 42-78, after the data has been read and cleaned. The labels go into the raw
  frame (line 59) as an integer column, so the means are those of the untransformed
  values; the loop runs over \<^verbatim>\<open>range(2)\<close>.
\<close>

definition load_data_and_analyze_clusters ::
  "(real \<Rightarrow> real) \<Rightarrow> (npfloat list \<Rightarrow> npfloat) \<Rightarrow>
   (dataframe \<Rightarrow> 'x) \<Rightarrow> ('x \<Rightarrow> 'y) \<Rightarrow> ('y \<Rightarrow> int list) \<Rightarrow> dataframe
     \<Rightarrow> error + (int \<rightharpoonup> cluster_info)" where
  "load_data_and_analyze_clusters log64 mean64 scaler pca kmeans df =
     bindE (predict_clusters log64 scaler pca kmeans df) (\<lambda>clusters.
     bindE (df_setitem df ''cluster_id'' (Int64 clusters)) (\<lambda>df'.
       analyze_loop mean64 df' [0, 1] Map.empty))"

text \<open>Line 312: \<^verbatim>\<open>cluster_analysis[cluster]\<close>.\<close>

definition cluster_analysis_getitem ::
  "(int \<rightharpoonup> cluster_info) \<Rightarrow> int \<Rightarrow> error + cluster_info" where
  "cluster_analysis_getitem cluster_analysis cluster =
     (case cluster_analysis cluster of None \<Rightarrow> Inl (KeyError_id cluster)
      | Some info \<Rightarrow> Inr info)"

subsection \<open>Inputs used in the examples\<close>

text \<open>Lines 271-289: the keys of \<^verbatim>\<open>input_data\<close>, the seventeen features.\<close>

definition input_fields :: "string list" where
  "input_fields =
     [''BALANCE'', ''BALANCE_FREQUENCY'', ''PURCHASES'', ''ONEOFF_PURCHASES'',
      ''INSTALLMENTS_PURCHASES'', ''CASH_ADVANCE'', ''PURCHASES_FREQUENCY'',
      ''ONEOFF_PURCHASES_FREQUENCY'', ''PURCHASES_INSTALLMENTS_FREQUENCY'',
      ''CASH_ADVANCE_FREQUENCY'', ''CASH_ADVANCE_TRX'', ''PURCHASES_TRX'', ''CREDIT_LIMIT'',
      ''PAYMENTS'', ''MINIMUM_PAYMENTS'', ''PRC_FULL_PAYMENT'', ''TENURE'']"

text \<open>
  A valid entry of an input vector: a finite float that is not negative, or an int that
  is not negative and fits an int64 column.
\<close>

fun valid_entry :: "pyvalue \<Rightarrow> bool" where
  "valid_entry (PyFloat x) = finite_nonneg x"
| "valid_entry (PyInt k) = (0 \<le> k \<and> k < 2 ^ 63)"

text \<open>The default values of the input widgets, lines 242-266.\<close>

definition default_input :: "string \<rightharpoonup> pyvalue" where
  "default_input =
     [''BALANCE'' \<mapsto> PyFloat (Fin 1000), ''BALANCE_FREQUENCY'' \<mapsto> PyFloat (Fin 0.5),
      ''PURCHASES'' \<mapsto> PyFloat (Fin 500), ''ONEOFF_PURCHASES'' \<mapsto> PyFloat (Fin 100),
      ''INSTALLMENTS_PURCHASES'' \<mapsto> PyFloat (Fin 200), ''CASH_ADVANCE'' \<mapsto> PyFloat (Fin 0),
      ''PURCHASES_FREQUENCY'' \<mapsto> PyFloat (Fin 0.5),
      ''ONEOFF_PURCHASES_FREQUENCY'' \<mapsto> PyFloat (Fin 0.3),
      ''PURCHASES_INSTALLMENTS_FREQUENCY'' \<mapsto> PyFloat (Fin 0.3),
      ''CASH_ADVANCE_FREQUENCY'' \<mapsto> PyFloat (Fin 0), ''CASH_ADVANCE_TRX'' \<mapsto> PyInt 0,
      ''PURCHASES_TRX'' \<mapsto> PyInt 10, ''CREDIT_LIMIT'' \<mapsto> PyFloat (Fin 3000),
      ''PAYMENTS'' \<mapsto> PyFloat (Fin 500), ''MINIMUM_PAYMENTS'' \<mapsto> PyFloat (Fin 100),
      ''PRC_FULL_PAYMENT'' \<mapsto> PyFloat (Fin 0.3), ''TENURE'' \<mapsto> PyInt 12]"

text \<open>Means of an active, solvent cluster: large purchases, frequent, paid in full.\<close>

definition active_means :: series where
  "active_means =
     [''BALANCE'' \<mapsto> Fin 2000, ''PURCHASES'' \<mapsto> Fin 1500, ''PURCHASES_FREQUENCY'' \<mapsto> Fin 0.8,
      ''CASH_ADVANCE'' \<mapsto> Fin 0, ''CREDIT_LIMIT'' \<mapsto> Fin 3000, ''PRC_FULL_PAYMENT'' \<mapsto> Fin 0.5,
      ''CASH_ADVANCE_FREQUENCY'' \<mapsto> Fin 0]"

text \<open>
  Means holding only the six fields of the predicates, with a large cash advance and
  small purchases.
\<close>

definition six_field_means :: series where
  "six_field_means =
     [''BALANCE'' \<mapsto> Fin 50, ''PURCHASES'' \<mapsto> Fin 10, ''PURCHASES_FREQUENCY'' \<mapsto> Fin 0.05,
      ''CASH_ADVANCE'' \<mapsto> Fin 600, ''CREDIT_LIMIT'' \<mapsto> Fin 3000, ''PRC_FULL_PAYMENT'' \<mapsto> Fin 0]"

text \<open>
  A reference frame of two customers: the first buys much and often and pays in full,
  the second hardly uses the card.
\<close>

definition two_customers :: dataframe where
  "two_customers =
     \<lparr>nrows = 2,
      columns =
        [''BALANCE'' \<mapsto> Float64 [Fin 2000, Fin 50],
         ''BALANCE_FREQUENCY'' \<mapsto> Float64 [Fin 1, Fin 0.5],
         ''PURCHASES'' \<mapsto> Float64 [Fin 1500, Fin 10],
         ''ONEOFF_PURCHASES'' \<mapsto> Float64 [Fin 1000, Fin 10],
         ''INSTALLMENTS_PURCHASES'' \<mapsto> Float64 [Fin 500, Fin 0],
         ''CASH_ADVANCE'' \<mapsto> Float64 [Fin 0, Fin 0],
         ''PURCHASES_FREQUENCY'' \<mapsto> Float64 [Fin 0.8, Fin 0.05],
         ''ONEOFF_PURCHASES_FREQUENCY'' \<mapsto> Float64 [Fin 0.5, Fin 0.05],
         ''PURCHASES_INSTALLMENTS_FREQUENCY'' \<mapsto> Float64 [Fin 0.3, Fin 0],
         ''CASH_ADVANCE_FREQUENCY'' \<mapsto> Float64 [Fin 0, Fin 0],
         ''CASH_ADVANCE_TRX'' \<mapsto> Int64 [0, 0],
         ''PURCHASES_TRX'' \<mapsto> Int64 [20, 1],
         ''CREDIT_LIMIT'' \<mapsto> Float64 [Fin 6000, Fin 1000],
         ''PAYMENTS'' \<mapsto> Float64 [Fin 1500, Fin 10],
         ''MINIMUM_PAYMENTS'' \<mapsto> Float64 [Fin 100, Fin 10],
         ''PRC_FULL_PAYMENT'' \<mapsto> Float64 [Fin 0.5, Fin 0],
         ''TENURE'' \<mapsto> Int64 [12, 12] ]\<rparr>"

text \<open>A reference frame of three customers, the third like the second.\<close>

definition three_customers :: dataframe where
  "three_customers =
     \<lparr>nrows = 3,
      columns =
        [''BALANCE'' \<mapsto> Float64 [Fin 2000, Fin 50, Fin 50],
         ''BALANCE_FREQUENCY'' \<mapsto> Float64 [Fin 1, Fin 0.5, Fin 0.5],
         ''PURCHASES'' \<mapsto> Float64 [Fin 1500, Fin 10, Fin 10],
         ''ONEOFF_PURCHASES'' \<mapsto> Float64 [Fin 1000, Fin 10, Fin 10],
         ''INSTALLMENTS_PURCHASES'' \<mapsto> Float64 [Fin 500, Fin 0, Fin 0],
         ''CASH_ADVANCE'' \<mapsto> Float64 [Fin 0, Fin 0, Fin 0],
         ''PURCHASES_FREQUENCY'' \<mapsto> Float64 [Fin 0.8, Fin 0.05, Fin 0.05],
         ''ONEOFF_PURCHASES_FREQUENCY'' \<mapsto> Float64 [Fin 0.5, Fin 0.05, Fin 0.05],
         ''PURCHASES_INSTALLMENTS_FREQUENCY'' \<mapsto> Float64 [Fin 0.3, Fin 0, Fin 0],
         ''CASH_ADVANCE_FREQUENCY'' \<mapsto> Float64 [Fin 0, Fin 0, Fin 0],
         ''CASH_ADVANCE_TRX'' \<mapsto> Int64 [0, 0, 0],
         ''PURCHASES_TRX'' \<mapsto> Int64 [20, 1, 1],
         ''CREDIT_LIMIT'' \<mapsto> Float64 [Fin 6000, Fin 1000, Fin 1000],
         ''PAYMENTS'' \<mapsto> Float64 [Fin 1500, Fin 10, Fin 10],
         ''MINIMUM_PAYMENTS'' \<mapsto> Float64 [Fin 100, Fin 10, Fin 10],
         ''PRC_FULL_PAYMENT'' \<mapsto> Float64 [Fin 0.5, Fin 0, Fin 0],
         ''TENURE'' \<mapsto> Int64 [12, 12, 12] ]\<rparr>"


subsection \<open>Rounding to float64\<close>

lemma round_even_error: "\<bar>of_int (round_even t) - t\<bar> \<le> 1 / 2"
proof -
  have "of_int \<lfloor>t\<rfloor> \<le> t" and "t < of_int \<lfloor>t\<rfloor> + 1"
    by linarith+
  then show ?thesis
    unfolding round_even_def Let_def by auto
qed



lemma round_even_eqI:
  assumes "\<bar>t - of_int k\<bar> < 1 / 2"
  shows "round_even t = k"
  using round_even_error [of t] assms by linarith

lemma powr2_powi: "(2::real) powr real_of_int k = 2 powi k"
  by (simp add: powr_real_of_int')

lemma floor_log2_powi:
  assumes "x \<noteq> 0"
  shows "2 powi \<lfloor>log 2 \<bar>x\<bar>\<rfloor> \<le> \<bar>x\<bar>" and "\<bar>x\<bar> < 2 powi (\<lfloor>log 2 \<bar>x\<bar>\<rfloor> + 1)"
proof -
  have "0 < \<bar>x\<bar>" using assms by simp
  from floor_log_eq_powr_iff [OF this, of 2 "\<lfloor>log 2 \<bar>x\<bar>\<rfloor>"]
  have a: "2 powr real_of_int \<lfloor>log 2 \<bar>x\<bar>\<rfloor> \<le> \<bar>x\<bar>"
    and b: "\<bar>x\<bar> < 2 powr real_of_int (\<lfloor>log 2 \<bar>x\<bar>\<rfloor> + 1)"
    by simp_all
  from a show "2 powi \<lfloor>log 2 \<bar>x\<bar>\<rfloor> \<le> \<bar>x\<bar>"
    by (simp only: powr2_powi)
  from b show "\<bar>x\<bar> < 2 powi (\<lfloor>log 2 \<bar>x\<bar>\<rfloor> + 1)"
    by (simp only: powr2_powi)
qed

lemma floor_log2_eqI:
  assumes "2 powi k \<le> \<bar>x\<bar>" and "\<bar>x\<bar> < 2 powi (k + 1)"
  shows "\<lfloor>log 2 \<bar>x\<bar>\<rfloor> = k"
proof -
  have "0 < (2::real) powi k" by simp
  with assms have "0 < \<bar>x\<bar>" by linarith
  have "2 powr real_of_int k \<le> \<bar>x\<bar> \<and> \<bar>x\<bar> < 2 powr (real_of_int k + 1)"
    using assms powr2_powi [of k] powr2_powi [of "k + 1"] by simp
  with floor_log_eq_powr_iff [OF \<open>0 < \<bar>x\<bar>\<close>, of 2 k] show ?thesis
    by simp
qed

lemma f64_exponent_ge: "- 1074 \<le> f64_exponent x"
  by (simp add: f64_exponent_def)

text \<open>
  The spacing of the float64 values around \<open>x\<close> is at most \<open>\<bar>x\<bar> / 2 ^ 52\<close>, or
  \<open>2 ^ -1074\<close> in the subnormal range.
\<close>

lemma f64_ulp_le:
  assumes "x \<noteq> 0"
  shows "2 powi f64_exponent x \<le> max (\<bar>x\<bar> / 2 ^ 52) (1 / 2 ^ 1074)"
proof (cases "- 1074 \<le> \<lfloor>log 2 \<bar>x\<bar>\<rfloor> - 52")
  case True
  then have "f64_exponent x = \<lfloor>log 2 \<bar>x\<bar>\<rfloor> - 52"
    by (simp add: f64_exponent_def)
  then have "2 powi f64_exponent x = 2 powi \<lfloor>log 2 \<bar>x\<bar>\<rfloor> / (2::real) ^ 52"
    by (simp add: power_int_diff)
  also have "\<dots> \<le> \<bar>x\<bar> / 2 ^ 52"
    using floor_log2_powi(1) [OF assms] by (intro divide_right_mono) simp_all
  finally show ?thesis by simp
next
  case False
  then have "f64_exponent x = - 1074"
    by (simp add: f64_exponent_def)
  then have "2 powi f64_exponent x = (1::real) / 2 ^ 1074"
    by (simp add: power_int_minus field_simps)
  then show ?thesis by simp
qed

lemma f64_ulp_ge: "(1::real) / 2 ^ 1074 \<le> 2 powi f64_exponent x"
proof -
  have "(2::real) powi (- 1074) \<le> 2 powi f64_exponent x"
    by (intro power_int_increasing f64_exponent_ge) simp
  then show ?thesis
    by (simp add: power_int_minus field_simps)
qed

lemma f64_round_0 [simp]: "f64_round 0 = Fin 0"
  by (simp add: f64_round_def)

lemma f64_round_nonzero:
  "x \<noteq> 0 \<Longrightarrow> f64_round x =
     (if 2 ^ 1024 \<le> \<bar>f64_nearest x\<bar> then (if 0 < x then PInf else NInf)
      else Fin (f64_nearest x))"
  by (simp add: f64_round_def)

lemma f64_nearest_close: "\<bar>f64_nearest x - x\<bar> \<le> 2 powi f64_exponent x / 2"
proof -
  define u :: real where "u = 2 powi f64_exponent x"
  define m :: real where "m = of_int (round_even (x / u))"
  have u: "0 < u" by (simp add: u_def)
  have "m * u - x = (m - x / u) * u"
    using u by (simp add: field_simps)
  then have "\<bar>m * u - x\<bar> = \<bar>m - x / u\<bar> * u"
    using u by (simp add: abs_mult)
  also have "\<dots> \<le> 1 / 2 * u"
    using round_even_error [of "x / u"] u unfolding m_def by (intro mult_right_mono) simp_all
  finally show ?thesis
    by (simp add: f64_nearest_def u_def m_def)
qed

text \<open>
  Below the overflow range, rounding returns a finite value within half a spacing of the
  exact one.
\<close>

lemma f64_round_error:
  assumes "\<bar>x\<bar> \<le> 2 ^ 1023"
  shows "\<exists>y. f64_round x = Fin y \<and> \<bar>y - x\<bar> \<le> max (\<bar>x\<bar> / 2 ^ 53) (1 / 2 ^ 1075)"
proof (cases "x = 0")
  case True
  then show ?thesis by (simp add: f64_round_def)
next
  case False
  have "2 powi f64_exponent x / 2 \<le> max (\<bar>x\<bar> / 2 ^ 52) (1 / 2 ^ 1074) / 2"
    using f64_ulp_le [OF False] by simp
  also have "\<dots> = max (\<bar>x\<bar> / 2 ^ 53) (1 / 2 ^ 1075)"
    by (simp add: max_def)
  finally have err: "\<bar>f64_nearest x - x\<bar> \<le> max (\<bar>x\<bar> / 2 ^ 53) (1 / 2 ^ 1075)"
    using f64_nearest_close [of x] by linarith
  have big: "(1::real) \<le> 2 ^ 1023"
    by (rule one_le_power) simp
  have "\<bar>f64_nearest x - x\<bar> < 2 ^ 1023"
  proof (cases "\<bar>x\<bar> / 2 ^ 53 \<le> 1 / 2 ^ 1075")
    case True
    then have "\<bar>f64_nearest x - x\<bar> \<le> 1 / 2 ^ 1075"
      using err by (simp add: max_def)
    moreover have "(1::real) / 2 ^ 1075 < 1"
      by simp
    ultimately show ?thesis
      using big by linarith
  next
    case False
    then have "\<bar>f64_nearest x - x\<bar> \<le> \<bar>x\<bar> / 2 ^ 53"
      using err by (simp add: max_def)
    moreover have "\<bar>x\<bar> / 2 ^ 53 < \<bar>x\<bar>"
      using \<open>x \<noteq> 0\<close> by (simp add: field_simps)
    ultimately show ?thesis
      using assms by linarith
  qed
  then have "\<bar>f64_nearest x\<bar> < \<bar>x\<bar> + 2 ^ 1023"
    by linarith
  moreover have "(2::real) ^ 1024 = 2 ^ 1023 + 2 ^ 1023"
    by simp
  ultimately have "\<bar>f64_nearest x\<bar> < 2 ^ 1024"
    using assms by linarith
  with err show ?thesis
    by (simp add: f64_round_nonzero [OF False])
qed











text \<open>
  The float64 result for a given exact one, from the binade of the exact result and the
  integer nearest to its quotient by the spacing.
\<close>

lemma f64_round_eqI:
  assumes "2 powi (e + 52) \<le> \<bar>x\<bar>" and "\<bar>x\<bar> < 2 powi (e + 53)" and "- 1074 \<le> e"
    and "\<bar>x / 2 powi e - of_int m\<bar> < 1 / 2"
    and "\<bar>of_int m * 2 powi e\<bar> < (2::real) ^ 1024"
  shows "f64_round x = Fin (of_int m * 2 powi e)"
proof -
  have "0 < (2::real) powi (e + 52)"
    by (rule zero_less_power_int) simp
  with assms(1) have "0 < \<bar>x\<bar>"
    by linarith
  then have nz: "x \<noteq> 0"
    by simp
  have "\<bar>x\<bar> < 2 powi (e + 52 + 1)"
    using assms(2) by (simp add: add.assoc)
  with assms(1) have "\<lfloor>log 2 \<bar>x\<bar>\<rfloor> = e + 52"
    by (rule floor_log2_eqI)
  then have e: "f64_exponent x = e"
    using assms(3) by (simp add: f64_exponent_def)
  have "round_even (x / 2 powi e) = m"
    using assms(4) by (rule round_even_eqI)
  with assms(5) e show ?thesis
    by (simp add: f64_round_nonzero [OF nz] f64_nearest_def)
qed


subsection \<open>Basic facts about errors, lookups and the rule\<close>

lemma bindE_Inr [simp]: "bindE (Inr x) f = f x"
  by (simp add: bindE_def)

lemma bindE_Inl [simp]: "bindE (Inl e) f = Inl e"
  by (simp add: bindE_def)

lemma getitem_Some [simp]: "s k = Some v \<Longrightarrow> getitem s k = Inr v"
  by (simp add: getitem_def)

lemma getitem_None [simp]: "s k = None \<Longrightarrow> getitem s k = Inl (KeyError k)"
  by (simp add: getitem_def)

lemmas predicate_defs =
  high_balance_def high_purchases_def high_frequency_def uses_cash_advance_def
  high_credit_limit_def pays_full_def

lemma names_distinct:
  "distinct [name_active_solvent, name_active_installments, name_moderate,
             name_cash_advance, name_low_activity, name_unusual]"
  by (simp add: name_active_solvent_def name_active_installments_def name_moderate_def
      name_cash_advance_def name_low_activity_def name_unusual_def)

text \<open>
  When the seven fields that the rule reads are present, it returns the description of
  exactly one branch; the values passed to \<^verbatim>\<open>format\<close> are the ones listed there.
\<close>

lemma rule_present:
  assumes "means ''BALANCE'' = Some b" and "means ''PURCHASES'' = Some p"
    and "means ''PURCHASES_FREQUENCY'' = Some f" and "means ''CASH_ADVANCE'' = Some c"
    and "means ''CREDIT_LIMIT'' = Some l" and "means ''PRC_FULL_PAYMENT'' = Some q"
    and "means ''CASH_ADVANCE_FREQUENCY'' = Some cf"
  shows "create_cluster_description cluster_id means =
     Inr (if cluster_id = 0 then
            if np_gt p 1000 \<and> np_gt f 0.5 then
              if np_gt q 0.3 then
                \<lparr>name = name_active_solvent,
                 description = (Template_active_solvent, [f, p, q]),
                 key_features = tags_active_solvent\<rparr>
              else
                \<lparr>name = name_active_installments,
                 description = (Template_active_installments, [f, p, b]),
                 key_features = tags_active_installments\<rparr>
            else
              \<lparr>name = name_moderate, description = (Template_moderate, [f, p]),
               key_features = tags_moderate\<rparr>
          else
            if np_gt c 500 \<and> \<not> np_gt p 1000 then
              \<lparr>name = name_cash_advance,
               description = (Template_cash_advance, [c, f, cf, l]),
               key_features = tags_cash_advance\<rparr>
            else if \<not> np_gt p 1000 \<and> \<not> np_gt f 0.5 then
              \<lparr>name = name_low_activity,
               description = (Template_low_activity, [f, p, b]),
               key_features = tags_low_activity\<rparr>
            else
              \<lparr>name = name_unusual, description = (Template_unusual, []),
               key_features = tags_unusual\<rparr>)"
  using assms
  by (simp add: create_cluster_description_def predicate_defs make_description_def)

lemma active_means_fields:
  "active_means ''BALANCE'' = Some (Fin 2000)" "active_means ''PURCHASES'' = Some (Fin 1500)"
  "active_means ''PURCHASES_FREQUENCY'' = Some (Fin 0.8)"
  "active_means ''CASH_ADVANCE'' = Some (Fin 0)" "active_means ''CREDIT_LIMIT'' = Some (Fin 3000)"
  "active_means ''PRC_FULL_PAYMENT'' = Some (Fin 0.5)"
  "active_means ''CASH_ADVANCE_FREQUENCY'' = Some (Fin 0)"
  by (simp_all add: active_means_def)

subsection \<open>The decision table\<close>

text \<open>
  Claim C1. For every means mapping that holds the fields the rule reads (the fields of
  the six predicates and \<^verbatim>\<open>CASH_ADVANCE_FREQUENCY\<close>, which the cash-advance narrative
  prints), the rule follows the ordered table. With \<open>high_purchases\<close> being
  \<open>PURCHASES > 1000\<close>, \<open>high_frequency\<close> being \<open>PURCHASES_FREQUENCY > 0.5\<close>, \<open>pays_full\<close>
  being \<open>PRC_FULL_PAYMENT > 0.3\<close> and \<open>uses_cash_advance\<close> being \<open>CASH_ADVANCE > 500\<close>:
  for cluster 0 the result is the "active solvent" description iff \<open>high_purchases\<close>,
  \<open>high_frequency\<close> and \<open>pays_full\<close>; the "active, installments" one iff \<open>high_purchases\<close>,
  \<open>high_frequency\<close> and not \<open>pays_full\<close>; the "moderate users" one otherwise. For cluster 1
  it is the "cash advance" description iff \<open>uses_cash_advance\<close> and not
  \<open>high_purchases\<close>; else the "low activity" one iff neither \<open>high_purchases\<close> nor
  \<open>high_frequency\<close>; else the "unusual behaviour" one. A description is identified by
  its name and its tags.
\<close>

theorem decision_table:
  assumes "means ''BALANCE'' = Some b" and "means ''PURCHASES'' = Some p"
    and "means ''PURCHASES_FREQUENCY'' = Some f" and "means ''CASH_ADVANCE'' = Some c"
    and "means ''CREDIT_LIMIT'' = Some l" and "means ''PRC_FULL_PAYMENT'' = Some q"
    and "means ''CASH_ADVANCE_FREQUENCY'' = Some cf"
  shows "\<exists>d0 d1.
     create_cluster_description 0 means = Inr d0 \<and>
     create_cluster_description 1 means = Inr d1 \<and>
     ((name d0 = name_active_solvent \<and> key_features d0 = tags_active_solvent) \<longleftrightarrow>
        np_gt p 1000 \<and> np_gt f 0.5 \<and> np_gt q 0.3) \<and>
     ((name d0 = name_active_installments \<and> key_features d0 = tags_active_installments) \<longleftrightarrow>
        np_gt p 1000 \<and> np_gt f 0.5 \<and> \<not> np_gt q 0.3) \<and>
     ((name d0 = name_moderate \<and> key_features d0 = tags_moderate) \<longleftrightarrow>
        \<not> (np_gt p 1000 \<and> np_gt f 0.5)) \<and>
     ((name d1 = name_cash_advance \<and> key_features d1 = tags_cash_advance) \<longleftrightarrow>
        np_gt c 500 \<and> \<not> np_gt p 1000) \<and>
     ((name d1 = name_low_activity \<and> key_features d1 = tags_low_activity) \<longleftrightarrow>
        \<not> (np_gt c 500 \<and> \<not> np_gt p 1000) \<and> \<not> np_gt p 1000 \<and> \<not> np_gt f 0.5) \<and>
     ((name d1 = name_unusual \<and> key_features d1 = tags_unusual) \<longleftrightarrow>
        \<not> (np_gt c 500 \<and> \<not> np_gt p 1000) \<and> \<not> (\<not> np_gt p 1000 \<and> \<not> np_gt f 0.5))"
proof -
  note r = rule_present [OF assms]
  from names_distinct have nd:
    "name_active_solvent \<noteq> name_active_installments" "name_active_solvent \<noteq> name_moderate"
    "name_active_installments \<noteq> name_moderate" "name_cash_advance \<noteq> name_low_activity"
    "name_cash_advance \<noteq> name_unusual" "name_low_activity \<noteq> name_unusual"
    by simp_all
  show ?thesis
    unfolding r [of 0] r [of 1] using nd by auto
qed

theorem decision_table_witness:
  "active_means ''BALANCE'' = Some (Fin 2000) \<and> active_means ''PURCHASES'' = Some (Fin 1500) \<and>
   active_means ''PURCHASES_FREQUENCY'' = Some (Fin 0.8) \<and>
   active_means ''CASH_ADVANCE'' = Some (Fin 0) \<and>
   active_means ''CREDIT_LIMIT'' = Some (Fin 3000) \<and>
   active_means ''PRC_FULL_PAYMENT'' = Some (Fin 0.5) \<and>
   active_means ''CASH_ADVANCE_FREQUENCY'' = Some (Fin 0) \<and>
   (\<exists>d0 d1. create_cluster_description 0 active_means = Inr d0 \<and>
      create_cluster_description 1 active_means = Inr d1 \<and>
      name d0 = name_active_solvent \<and> key_features d0 = tags_active_solvent \<and>
      name d1 = name_unusual \<and> key_features d1 = tags_unusual)"
proof -
  from decision_table [OF active_means_fields]
  have "\<exists>d0 d1. create_cluster_description 0 active_means = Inr d0 \<and>
      create_cluster_description 1 active_means = Inr d1 \<and>
      name d0 = name_active_solvent \<and> key_features d0 = tags_active_solvent \<and>
      name d1 = name_unusual \<and> key_features d1 = tags_unusual"
    by auto
  with active_means_fields show ?thesis
    by blast
qed

text \<open>
  Claim C8. Each of the six predicates reads its field and compares it strictly with its
  threshold: for a finite mean \<open>x\<close> the predicate is true exactly when \<open>x\<close> is above 1000
  for \<^verbatim>\<open>BALANCE\<close>, 1000 for \<^verbatim>\<open>PURCHASES\<close>, 0.5 for \<^verbatim>\<open>PURCHASES_FREQUENCY\<close>, 500 for
  \<^verbatim>\<open>CASH_ADVANCE\<close>, 5000 for \<^verbatim>\<open>CREDIT_LIMIT\<close> and 0.3 for \<^verbatim>\<open>PRC_FULL_PAYMENT\<close>, whatever
  the other means are. In particular a mean that equals the threshold gives false.
\<close>

theorem strict_thresholds:
  "high_balance (means(''BALANCE'' \<mapsto> Fin x)) = Inr (1000 < x) \<and>
   high_purchases (means(''PURCHASES'' \<mapsto> Fin x)) = Inr (1000 < x) \<and>
   high_frequency (means(''PURCHASES_FREQUENCY'' \<mapsto> Fin x)) = Inr (0.5 < x) \<and>
   uses_cash_advance (means(''CASH_ADVANCE'' \<mapsto> Fin x)) = Inr (500 < x) \<and>
   high_credit_limit (means(''CREDIT_LIMIT'' \<mapsto> Fin x)) = Inr (5000 < x) \<and>
   pays_full (means(''PRC_FULL_PAYMENT'' \<mapsto> Fin x)) = Inr (0.3 < x) \<and>
   high_balance (means(''BALANCE'' \<mapsto> Fin 1000)) = Inr False \<and>
   high_purchases (means(''PURCHASES'' \<mapsto> Fin 1000)) = Inr False \<and>
   high_frequency (means(''PURCHASES_FREQUENCY'' \<mapsto> Fin 0.5)) = Inr False \<and>
   uses_cash_advance (means(''CASH_ADVANCE'' \<mapsto> Fin 500)) = Inr False \<and>
   high_credit_limit (means(''CREDIT_LIMIT'' \<mapsto> Fin 5000)) = Inr False \<and>
   pays_full (means(''PRC_FULL_PAYMENT'' \<mapsto> Fin 0.3)) = Inr False"
  by (simp add: predicate_defs)

subsection \<open>Cluster ids other than 0 and 1\<close>

text \<open>
  With cluster id 5 the rule does not fail: the \<^verbatim>\<open>else\<close> of line 162 takes the id and,
  for the means of an active cluster, returns the "unusual behaviour" description.
\<close>

theorem large_cluster_id_counterexample:
  "create_cluster_description 5 active_means =
     Inr \<lparr>name = name_unusual, description = (Template_unusual, []),
          key_features = tags_unusual\<rparr>"
  by (simp add: rule_present [OF active_means_fields])

text \<open>
  Claim C3, amended. For every means mapping, the rule called with a cluster id of 2
  or more takes the \<^verbatim>\<open>else\<close> branch and gives exactly what it gives for cluster id 1:
  the same description, or the same KeyError when a field is missing. No lookup error
  comes from the id.
\<close>

theorem large_cluster_id_else_branch:
  "2 \<le> cluster_id \<Longrightarrow>
   create_cluster_description cluster_id means = create_cluster_description 1 means"
  by (simp add: create_cluster_description_def)

theorem large_cluster_id_else_branch_witness:
  "(2::int) \<le> 5 \<and>
   create_cluster_description 5 active_means = create_cluster_description 1 active_means"
proof -
  have h: "(2::int) \<le> 5" by simp
  from h large_cluster_id_else_branch [OF h] show ?thesis
    by blast
qed

text \<open>
  Means that hold the six fields of the predicates and nothing else are not enough:
  with a large cash advance and small purchases the cash-advance branch reads
  \<^verbatim>\<open>CASH_ADVANCE_FREQUENCY\<close> for its narrative (line 182) and raises KeyError.
\<close>

theorem six_fields_counterexample:
  "create_cluster_description 1 six_field_means = Inl (KeyError ''CASH_ADVANCE_FREQUENCY'')"
  by (simp add: create_cluster_description_def predicate_defs make_description_def
      six_field_means_def)

text \<open>
  Claim C10, amended. The rule is total over cluster ids: for every integer cluster id,
  negative ones and those above 1 included, and every means mapping that holds the six
  fields of the predicates and \<^verbatim>\<open>CASH_ADVANCE_FREQUENCY\<close>, it returns a description
  (name, narrative, tags); every cluster id other than 0 goes through the table of
  cluster 1.
\<close>

theorem rule_total:
  assumes "{''BALANCE'', ''PURCHASES'', ''PURCHASES_FREQUENCY'', ''CASH_ADVANCE'',
            ''CREDIT_LIMIT'', ''PRC_FULL_PAYMENT'', ''CASH_ADVANCE_FREQUENCY''} \<subseteq> dom means"
  shows "(\<exists>d. create_cluster_description cluster_id means = Inr d) \<and>
     (cluster_id \<noteq> 0 \<longrightarrow>
        create_cluster_description cluster_id means = create_cluster_description 1 means)"
proof -
  from assms obtain b p f c l q cf where
    "means ''BALANCE'' = Some b" "means ''PURCHASES'' = Some p"
    "means ''PURCHASES_FREQUENCY'' = Some f" "means ''CASH_ADVANCE'' = Some c"
    "means ''CREDIT_LIMIT'' = Some l" "means ''PRC_FULL_PAYMENT'' = Some q"
    "means ''CASH_ADVANCE_FREQUENCY'' = Some cf"
    by (auto simp: dom_def)
  note r = rule_present [OF this]
  show ?thesis
    by (simp add: r)
qed

theorem rule_total_witness:
  "{''BALANCE'', ''PURCHASES'', ''PURCHASES_FREQUENCY'', ''CASH_ADVANCE'',
    ''CREDIT_LIMIT'', ''PRC_FULL_PAYMENT'', ''CASH_ADVANCE_FREQUENCY''} \<subseteq> dom active_means \<and>
   (\<exists>d. create_cluster_description (- 3) active_means = Inr d) \<and>
   create_cluster_description (- 3) active_means = create_cluster_description 1 active_means"
proof -
  have h: "{''BALANCE'', ''PURCHASES'', ''PURCHASES_FREQUENCY'', ''CASH_ADVANCE'',
    ''CREDIT_LIMIT'', ''PRC_FULL_PAYMENT'', ''CASH_ADVANCE_FREQUENCY''} \<subseteq> dom active_means"
    by (simp add: active_means_def)
  have "(- 3::int) \<noteq> 0"
    by simp
  with h rule_total [OF h, of "- 3"] show ?thesis
    by blast
qed

subsection \<open>The credit limit does not select the branch\<close>

lemma getitems_agree:
  assumes "\<forall>k. k \<noteq> ''CREDIT_LIMIT'' \<longrightarrow> m1 k = m2 k"
    and "m1 ''CREDIT_LIMIT'' = Some a" and "m2 ''CREDIT_LIMIT'' = Some b"
  shows "map_sum id (\<lambda>_. ()) (getitems m1 ks) = map_sum id (\<lambda>_. ()) (getitems m2 ks)"
proof (induction ks)
  case Nil
  show ?case by simp
next
  case (Cons k ks)
  show ?case
  proof (cases "k = ''CREDIT_LIMIT''")
    case True
    with assms Cons.IH show ?thesis
      by (cases "getitems m1 ks"; cases "getitems m2 ks") simp_all
  next
    case False
    with assms have "m1 k = m2 k" by blast
    with Cons.IH show ?thesis
      by (cases "m2 k"; cases "getitems m1 ks"; cases "getitems m2 ks") simp_all
  qed
qed

lemma make_description_agree:
  assumes "\<forall>k. k \<noteq> ''CREDIT_LIMIT'' \<longrightarrow> m1 k = m2 k"
    and "m1 ''CREDIT_LIMIT'' = Some a" and "m2 ''CREDIT_LIMIT'' = Some b"
  shows "map_sum id (\<lambda>d. (name d, key_features d)) (make_description m1 nm t ks tags) =
         map_sum id (\<lambda>d. (name d, key_features d)) (make_description m2 nm t ks tags)"
  using getitems_agree [OF assms, of ks]
  by (cases "getitems m1 ks"; cases "getitems m2 ks") (simp_all add: make_description_def)

text \<open>
  Claim C9. For every cluster id and every two means mappings that agree on all fields
  except \<^verbatim>\<open>CREDIT_LIMIT\<close>, where each holds some value, the rule returns the same name
  and the same tags (or fails with the same KeyError). The narrative is left out of
  the comparison: the cash-advance narrative prints the credit limit.
\<close>

theorem credit_limit_irrelevant:
  assumes "\<forall>k. k \<noteq> ''CREDIT_LIMIT'' \<longrightarrow> m1 k = m2 k"
    and "m1 ''CREDIT_LIMIT'' = Some a" and "m2 ''CREDIT_LIMIT'' = Some b"
  shows "map_sum id (\<lambda>d. (name d, key_features d)) (create_cluster_description cluster_id m1) =
         map_sum id (\<lambda>d. (name d, key_features d)) (create_cluster_description cluster_id m2)"
proof -
  have g: "getitem m1 k = getitem m2 k" if "k \<noteq> ''CREDIT_LIMIT''" for k
    using assms(1) that by (simp add: getitem_def)
  have p: "high_balance m1 = high_balance m2" "high_purchases m1 = high_purchases m2"
    "high_frequency m1 = high_frequency m2" "uses_cash_advance m1 = uses_cash_advance m2"
    "pays_full m1 = pays_full m2"
    by (simp_all add: predicate_defs g)
  have c: "high_credit_limit m1 = Inr (np_gt a 5000)" "high_credit_limit m2 = Inr (np_gt b 5000)"
    using assms(2,3) by (simp_all add: high_credit_limit_def)
  note md = make_description_agree [OF assms]
  show ?thesis
    unfolding create_cluster_description_def p c
    by (cases "high_balance m2"; cases "high_purchases m2"; cases "high_frequency m2";
        cases "uses_cash_advance m2"; cases "pays_full m2") (simp_all add: md)
qed

theorem credit_limit_irrelevant_witness:
  "active_means ''CREDIT_LIMIT'' = Some (Fin 3000) \<and>
   (active_means(''CREDIT_LIMIT'' \<mapsto> Fin 9000)) ''CREDIT_LIMIT'' = Some (Fin 9000) \<and>
   map_sum id (\<lambda>d. (name d, key_features d)) (create_cluster_description 0 active_means) =
   map_sum id (\<lambda>d. (name d, key_features d))
     (create_cluster_description 0 (active_means(''CREDIT_LIMIT'' \<mapsto> Fin 9000)))"
proof -
  have h1: "\<forall>k. k \<noteq> ''CREDIT_LIMIT'' \<longrightarrow>
      active_means k = (active_means(''CREDIT_LIMIT'' \<mapsto> Fin 9000)) k"
    by simp
  have h2: "active_means ''CREDIT_LIMIT'' = Some (Fin 3000)"
    by (simp add: active_means_def)
  have h3: "(active_means(''CREDIT_LIMIT'' \<mapsto> Fin 9000)) ''CREDIT_LIMIT'' = Some (Fin 9000)"
    by simp
  from h2 h3 credit_limit_irrelevant [OF h1 h2 h3, of 0] show ?thesis
    by blast
qed

subsection \<open>The log transform\<close>

lemma cols_log_same: "cols_log_analysis = cols_log_inference"
  by (simp add: cols_log_analysis_def cols_log_inference_def)

lemma cols_log_distinct: "distinct cols_log_inference"
  by (simp add: cols_log_inference_def)

lemma log_col_present:
  "columns df col = Some c \<Longrightarrow>
   log_col log64 col df = Inr (df\<lparr>columns := (columns df)(col \<mapsto> log1p_col log64 c)\<rparr>)"
  by (simp add: log_col_def df_getitem_def)

lemma log_col_missing: "columns df col = None \<Longrightarrow> log_col log64 col df = Inl (KeyError col)"
  by (simp add: log_col_def df_getitem_def)

text \<open>
  On a frame that has all the listed columns the loop never fails, and the result is
  the frame with \<open>log1p_col\<close> applied to the listed columns.
\<close>

lemma log_transform_cols_present:
  "distinct cols \<Longrightarrow> set cols \<subseteq> dom (columns df) \<Longrightarrow>
   log_transform_cols log64 cols df =
     Inr (df\<lparr>columns := (\<lambda>k. if k \<in> set cols then map_option (log1p_col log64) (columns df k)
                               else columns df k)\<rparr>)"
proof (induction cols arbitrary: df)
  case Nil
  then show ?case by simp
next
  case (Cons col cols)
  from Cons.prems obtain c where c: "columns df col = Some c"
    by auto
  let ?df = "df\<lparr>columns := (columns df)(col \<mapsto> log1p_col log64 c)\<rparr>"
  have sub: "set cols \<subseteq> dom (columns ?df)"
    using Cons.prems by auto
  have dist: "distinct cols" and notin: "col \<notin> set cols"
    using Cons.prems by auto
  have "log_transform_cols log64 cols ?df =
     Inr (?df\<lparr>columns := (\<lambda>k. if k \<in> set cols then map_option (log1p_col log64) (columns ?df k)
                               else columns ?df k)\<rparr>)"
    by (rule Cons.IH [OF dist sub])
  moreover have "(\<lambda>k. if k \<in> set cols then map_option (log1p_col log64) (columns ?df k)
                       else columns ?df k) =
     (\<lambda>k. if k \<in> set (col # cols) then map_option (log1p_col log64) (columns df k)
           else columns df k)"
    using notin c by (auto simp: fun_eq_iff)
  ultimately show ?case
    by (simp add: log_col_present [OF c])
qed

lemma transform_analysis_present:
  assumes "set cols_log_analysis \<subseteq> dom (columns df)"
  shows "transform_analysis log64 df =
     Inr (df\<lparr>columns := (\<lambda>k. if k \<in> set cols_log_analysis
                               then map_option (log1p_col log64) (columns df k)
                               else columns df k)\<rparr>)"
  unfolding transform_analysis_def
  using cols_log_distinct assms by (intro log_transform_cols_present) (simp_all add: cols_log_same)

lemma transform_inference_present:
  assumes "set cols_log_inference \<subseteq> dom v"
  shows "transform_inference log64 v =
     Inr \<lparr>nrows = 1,
          columns = (\<lambda>k. if k \<in> set cols_log_inference
                          then map_option (\<lambda>x. log1p_col log64 (column1 x)) (v k)
                          else map_option column1 (v k))\<rparr>"
proof -
  have "set cols_log_inference \<subseteq> dom (columns (DataFrame1 v))"
    using assms by (auto simp: DataFrame1_def)
  from log_transform_cols_present [OF cols_log_distinct this]
  show ?thesis
    by (simp add: transform_inference_def DataFrame1_def fun_eq_iff option.map_comp comp_def)
qed

lemma transform_paths_agree:
  "transform_analysis log64 (DataFrame1 v) = transform_inference log64 v"
  by (simp add: transform_analysis_def transform_inference_def cols_log_same)

lemma input_fields_cols_log: "set cols_log_inference \<subseteq> set input_fields"
  by (simp add: input_fields_def cols_log_inference_def)

lemma default_input_fields:
  "\<forall>k \<in> set input_fields. \<exists>x. default_input k = Some x \<and> valid_entry x"
  by (simp add: input_fields_def default_input_def)

text \<open>
  Claim C7. The two lists of column names, of the analysis of the reference data and
  of the per-request path, are the same twelve distinct names, so both paths apply the
  same function to every frame and to every input vector.
\<close>

theorem transforms_coincide:
  "cols_log_analysis = cols_log_inference \<and> length cols_log_analysis = 12 \<and>
   distinct cols_log_analysis \<and>
   transform_analysis log64 df = log_transform_cols log64 cols_log_inference df \<and>
   transform_analysis log64 (DataFrame1 v) = transform_inference log64 v"
  by (simp add: transform_analysis_def transform_inference_def cols_log_analysis_def
      cols_log_inference_def)

text \<open>
  Claim C6. For every input vector whose seventeen fields are all present, finite and
  not negative, the log transform (on either path) succeeds and changes nothing outside
  the twelve listed columns: every other column of the result is the column of the input,
  in particular \<^verbatim>\<open>PURCHASES\<close>, \<^verbatim>\<open>BALANCE_FREQUENCY\<close>, \<^verbatim>\<open>PURCHASES_FREQUENCY\<close>,
  \<^verbatim>\<open>CASH_ADVANCE_FREQUENCY\<close> and \<^verbatim>\<open>TENURE\<close>, which are the five input fields that are
  not listed.
\<close>

theorem transform_frame:
  assumes "\<forall>k \<in> set input_fields. \<exists>x. v k = Some x \<and> valid_entry x"
  shows "\<exists>df'. transform_inference log64 v = Inr df' \<and>
     transform_analysis log64 (DataFrame1 v) = Inr df' \<and>
     nrows df' = 1 \<and>
     (\<forall>k. k \<notin> set cols_log_inference \<longrightarrow> columns df' k = columns (DataFrame1 v) k) \<and>
     (\<forall>k \<in> {''PURCHASES'', ''BALANCE_FREQUENCY'', ''PURCHASES_FREQUENCY'',
             ''CASH_ADVANCE_FREQUENCY'', ''TENURE''}.
        columns df' k = map_option column1 (v k)) \<and>
     set input_fields - set cols_log_inference =
       {''PURCHASES'', ''BALANCE_FREQUENCY'', ''PURCHASES_FREQUENCY'',
        ''CASH_ADVANCE_FREQUENCY'', ''TENURE''}"
proof -
  have dom: "set cols_log_inference \<subseteq> dom v"
    using assms input_fields_cols_log by blast
  have five: "set input_fields - set cols_log_inference =
       {''PURCHASES'', ''BALANCE_FREQUENCY'', ''PURCHASES_FREQUENCY'',
        ''CASH_ADVANCE_FREQUENCY'', ''TENURE''}"
    by (auto simp: input_fields_def cols_log_inference_def)
  have notin: "\<forall>k \<in> {''PURCHASES'', ''BALANCE_FREQUENCY'', ''PURCHASES_FREQUENCY'',
             ''CASH_ADVANCE_FREQUENCY'', ''TENURE''}. k \<notin> set cols_log_inference"
    by (simp add: cols_log_inference_def)
  show ?thesis
    unfolding transform_paths_agree transform_inference_present [OF dom]
    using five notin by (simp add: DataFrame1_def)
qed

theorem transform_frame_witness:
  "\<exists>df'. transform_inference ln default_input = Inr df' \<and>
      columns df' ''PURCHASES'' = Some (Float64 [Fin 500]) \<and>
      columns df' ''BALANCE_FREQUENCY'' = Some (Float64 [Fin 0.5]) \<and>
      columns df' ''PURCHASES_FREQUENCY'' = Some (Float64 [Fin 0.5]) \<and>
      columns df' ''CASH_ADVANCE_FREQUENCY'' = Some (Float64 [Fin 0]) \<and>
      columns df' ''TENURE'' = Some (Int64 [12])"
proof -
  from transform_frame [OF default_input_fields, of ln]
  obtain df' where t: "transform_inference ln default_input = Inr df'"
    and f: "\<forall>k \<in> {''PURCHASES'', ''BALANCE_FREQUENCY'', ''PURCHASES_FREQUENCY'',
             ''CASH_ADVANCE_FREQUENCY'', ''TENURE''}.
        columns df' k = map_option column1 (default_input k)"
    by blast
  from f have "columns df' ''PURCHASES'' = Some (Float64 [Fin 500])"
    and "columns df' ''BALANCE_FREQUENCY'' = Some (Float64 [Fin 0.5])"
    and "columns df' ''PURCHASES_FREQUENCY'' = Some (Float64 [Fin 0.5])"
    and "columns df' ''CASH_ADVANCE_FREQUENCY'' = Some (Float64 [Fin 0])"
    and "columns df' ''TENURE'' = Some (Int64 [12])"
    by (simp_all add: default_input_def)
  with t show ?thesis
    by blast
qed

subsection \<open>The values the log transform stores\<close>



















subsection \<open>The cluster analysis\<close>

lemma filter_rows_nrows:
  "nrows (filter_rows (map (\<lambda>k. k = cid) clusters) df)
     = length (filter (\<lambda>c. c = cid) clusters)"
  by (simp add: filter_rows_def filter_map comp_def)

lemma percentage_0: "0 < n \<Longrightarrow> percentage 0 n = Inr (Fin 0)"
  by (simp add: percentage_def int_truediv_def)

text \<open>
  The percentage of a part of the rows: two roundings, and a result within \<open>2 ^ -45\<close> of
  the exact one.
\<close>

lemma percentage_close:
  assumes "0 < n" and "s \<le> n"
  shows "\<exists>q p. f64_round (real s / real n) = Fin q \<and> f64_round (q * 100) = Fin p \<and>
           percentage s n = Inr (Fin p) \<and> \<bar>p - 100 * real s / real n\<bar> \<le> 1 / 2 ^ 45"
proof -
  define x where "x = real s / real n"
  have x: "0 \<le> x" "x \<le> 1"
    using assms by (simp_all add: x_def)
  have one: "(1::real) \<le> 2 ^ 1023"
    by (rule one_le_power) simp
  with x have "\<bar>x\<bar> \<le> 2 ^ 1023" by simp
  from f64_round_error [OF this] obtain q where q: "f64_round x = Fin q"
    and "\<bar>q - x\<bar> \<le> max (\<bar>x\<bar> / 2 ^ 53) (1 / 2 ^ 1075)"
    by blast
  moreover have "\<bar>x\<bar> / 2 ^ 53 \<le> 1 / 2 ^ 53"
    using x by (simp add: field_simps)
  moreover have "(1::real) / 2 ^ 1075 \<le> 1 / 2 ^ 53"
    by simp
  ultimately have eq: "\<bar>q - x\<bar> \<le> 1 / 2 ^ 53"
    by (simp add: max_def split: if_splits)
  have small: "(1::real) / 2 ^ 53 \<le> 1 / 100"
    by simp
  with eq x have q1: "\<bar>q * 100\<bar> \<le> 101"
    by (simp add: abs_if split: if_splits)
  have "(101::real) \<le> 2 ^ 7"
    by simp
  also have "\<dots> \<le> 2 ^ 1023"
    by (rule power_increasing) simp_all
  finally have "\<bar>q * 100\<bar> \<le> 2 ^ 1023"
    using q1 by linarith
  from f64_round_error [OF this] obtain p where p: "f64_round (q * 100) = Fin p"
    and "\<bar>p - q * 100\<bar> \<le> max (\<bar>q * 100\<bar> / 2 ^ 53) (1 / 2 ^ 1075)"
    by blast
  moreover have "\<bar>q * 100\<bar> / 2 ^ 53 \<le> 101 / 2 ^ 53"
    using q1 by (simp add: field_simps)
  moreover have "(1::real) / 2 ^ 1075 \<le> 101 / 2 ^ 53"
    by simp
  ultimately have ep: "\<bar>p - q * 100\<bar> \<le> 101 / 2 ^ 53"
    by (simp add: max_def split: if_splits)
  have "\<bar>p - 100 * x\<bar> \<le> \<bar>p - q * 100\<bar> + 100 * \<bar>q - x\<bar>"
    by (simp add: abs_if split: if_splits)
  also have "\<dots> \<le> 101 / 2 ^ 53 + 100 * (1 / 2 ^ 53)"
    using ep eq by (intro add_mono mult_left_mono) simp_all
  also have "\<dots> \<le> 1 / 2 ^ 45"
    by simp
  finally have "\<bar>p - 100 * real s / real n\<bar> \<le> 1 / 2 ^ 45"
    by (simp add: x_def)
  moreover have "percentage s n = Inr (Fin p)"
    using assms(1) q p by (simp add: percentage_def int_truediv_def x_def)
  ultimately show ?thesis
    using q p unfolding x_def by blast
qed

lemma percentage_2_3: "percentage 2 3 = Inr (Fin (4691249611844266 / 70368744177664))"
proof -
  have "f64_round (2 / 3) = Fin (6004799503160661 / 9007199254740992)"
    using f64_round_eqI [of "- 53" "2 / 3" 6004799503160661] by simp
  moreover have "f64_round (6004799503160661 / 9007199254740992 * 100)
      = Fin (4691249611844266 / 70368744177664)"
    using f64_round_eqI [of "- 46" "6004799503160661 / 9007199254740992 * 100"
        4691249611844266] by simp
  ultimately show ?thesis
    by (simp add: percentage_def int_truediv_def)
qed

lemma percentage_1_3: "percentage 1 3 = Inr (Fin (4691249611844266 / 140737488355328))"
proof -
  have "f64_round (1 / 3) = Fin (6004799503160661 / 18014398509481984)"
    using f64_round_eqI [of "- 54" "1 / 3" 6004799503160661] by simp
  moreover have "f64_round (6004799503160661 / 18014398509481984 * 100)
      = Fin (4691249611844266 / 140737488355328)"
    using f64_round_eqI [of "- 47" "6004799503160661 / 18014398509481984 * 100"
        4691249611844266] by simp
  ultimately show ?thesis
    by (simp add: percentage_def int_truediv_def)
qed

lemma analyze_cluster_present:
  assumes ids: "columns df ''cluster_id'' = Some (Int64 clusters)"
    and len: "length clusters = nrows df"
    and rows: "0 < nrows df"
    and fields: "{''BALANCE'', ''PURCHASES'', ''PURCHASES_FREQUENCY'', ''CASH_ADVANCE'',
            ''CREDIT_LIMIT'', ''PRC_FULL_PAYMENT'', ''CASH_ADVANCE_FREQUENCY''}
           \<subseteq> dom (columns df)"
  shows "\<exists>m d p. analyze_cluster mean64 df cid =
     Inr \<lparr>info_means = m, info_description = d,
          info_size = length (filter (\<lambda>c. c = cid) clusters),
          info_percentage = p\<rparr> \<and>
     percentage (length (filter (\<lambda>c. c = cid) clusters)) (nrows df) = Inr p"
proof -
  let ?cd = "filter_rows (column_eq (Int64 clusters) cid) df"
  let ?n = "length (filter (\<lambda>c. c = cid) clusters)"
  from fields have "{''BALANCE'', ''PURCHASES'', ''PURCHASES_FREQUENCY'', ''CASH_ADVANCE'',
            ''CREDIT_LIMIT'', ''PRC_FULL_PAYMENT'', ''CASH_ADVANCE_FREQUENCY''}
           \<subseteq> dom (df_mean mean64 ?cd)"
    by (auto simp: df_mean_def filter_rows_def dom_def)
  then obtain b p f c l q cf where
    "df_mean mean64 ?cd ''BALANCE'' = Some b" "df_mean mean64 ?cd ''PURCHASES'' = Some p"
    "df_mean mean64 ?cd ''PURCHASES_FREQUENCY'' = Some f"
    "df_mean mean64 ?cd ''CASH_ADVANCE'' = Some c"
    "df_mean mean64 ?cd ''CREDIT_LIMIT'' = Some l"
    "df_mean mean64 ?cd ''PRC_FULL_PAYMENT'' = Some q"
    "df_mean mean64 ?cd ''CASH_ADVANCE_FREQUENCY'' = Some cf"
    by (auto simp: dom_def)
  from rule_present [OF this, of cid]
  obtain d where d: "create_cluster_description cid (df_mean mean64 ?cd) = Inr d"
    by blast
  have "?n \<le> nrows df"
    using len by (metis length_filter_le)
  from percentage_close [OF rows this]
  obtain pc where pc: "percentage ?n (nrows df) = Inr pc"
    by blast
  have "analyze_cluster mean64 df cid =
     Inr \<lparr>info_means = df_mean mean64 ?cd, info_description = d,
          info_size = ?n, info_percentage = pc\<rparr>"
    using ids d pc
    by (simp add: analyze_cluster_def df_getitem_def Let_def filter_rows_nrows)
  with pc show ?thesis
    by blast
qed

lemma two_clusters_cover:
  "set clusters \<subseteq> {0, 1::int} \<Longrightarrow>
   length (filter (\<lambda>c. c = 0) clusters) + length (filter (\<lambda>c. c = 1) clusters) = length clusters"
  by (induction clusters) auto

text \<open>
  On a non-empty frame that holds the fields the rule reads, with one label per row,
  the analysis returns a dict with the two keys 0 and 1; the size stored under a key is
  the number of rows carrying that label, the percentage the one computed from it.
\<close>

lemma analysis_result:
  assumes pred: "predict_clusters log64 scaler pca kmeans df = Inr clusters"
    and len: "length clusters = nrows df"
    and rows: "0 < nrows df"
    and fields: "{''BALANCE'', ''PURCHASES'', ''PURCHASES_FREQUENCY'', ''CASH_ADVANCE'',
            ''CREDIT_LIMIT'', ''PRC_FULL_PAYMENT'', ''CASH_ADVANCE_FREQUENCY''}
           \<subseteq> dom (columns df)"
  shows "\<exists>m0 d0 p0 m1 d1 p1.
     load_data_and_analyze_clusters log64 mean64 scaler pca kmeans df =
       Inr [0 \<mapsto> \<lparr>info_means = m0, info_description = d0,
                   info_size = length (filter (\<lambda>c. c = 0) clusters),
                   info_percentage = p0\<rparr>,
            1 \<mapsto> \<lparr>info_means = m1, info_description = d1,
                   info_size = length (filter (\<lambda>c. c = 1) clusters),
                   info_percentage = p1\<rparr>] \<and>
     percentage (length (filter (\<lambda>c. c = 0) clusters)) (nrows df) = Inr p0 \<and>
     percentage (length (filter (\<lambda>c. c = 1) clusters)) (nrows df) = Inr p1"
proof -
  let ?df = "df\<lparr>columns := (columns df)(''cluster_id'' \<mapsto> Int64 clusters)\<rparr>"
  have ids: "columns ?df ''cluster_id'' = Some (Int64 clusters)"
    by simp
  have len': "length clusters = nrows ?df"
    using len by simp
  have rows': "0 < nrows ?df"
    using rows by simp
  have fields': "{''BALANCE'', ''PURCHASES'', ''PURCHASES_FREQUENCY'', ''CASH_ADVANCE'',
            ''CREDIT_LIMIT'', ''PRC_FULL_PAYMENT'', ''CASH_ADVANCE_FREQUENCY''}
           \<subseteq> dom (columns ?df)"
    using fields by auto
  from analyze_cluster_present [OF ids len' rows' fields', of mean64 0]
  obtain m0 d0 p0 where a0: "analyze_cluster mean64 ?df 0 =
     Inr \<lparr>info_means = m0, info_description = d0,
          info_size = length (filter (\<lambda>c. c = 0) clusters), info_percentage = p0\<rparr>"
    and p0: "percentage (length (filter (\<lambda>c. c = 0) clusters)) (nrows df) = Inr p0"
    by auto
  from analyze_cluster_present [OF ids len' rows' fields', of mean64 1]
  obtain m1 d1 p1 where a1: "analyze_cluster mean64 ?df 1 =
     Inr \<lparr>info_means = m1, info_description = d1,
          info_size = length (filter (\<lambda>c. c = 1) clusters), info_percentage = p1\<rparr>"
    and p1: "percentage (length (filter (\<lambda>c. c = 1) clusters)) (nrows df) = Inr p1"
    by auto
  have "load_data_and_analyze_clusters log64 mean64 scaler pca kmeans df =
          analyze_loop mean64 ?df [0, 1] Map.empty"
    using pred len by (simp add: load_data_and_analyze_clusters_def df_setitem_def)
  also have "\<dots> = Inr [0 \<mapsto> \<lparr>info_means = m0, info_description = d0,
                   info_size = length (filter (\<lambda>c. c = 0) clusters),
                   info_percentage = p0\<rparr>,
            1 \<mapsto> \<lparr>info_means = m1, info_description = d1,
                   info_size = length (filter (\<lambda>c. c = 1) clusters),
                   info_percentage = p1\<rparr>]"
    by (simp add: a0 a1)
  finally show ?thesis
    using p0 p1 by blast
qed

lemma two_customers_cols: "set cols_log_analysis \<subseteq> dom (columns two_customers)"
  by (simp add: cols_log_analysis_def two_customers_def)

lemma two_customers_fields:
  "{''BALANCE'', ''PURCHASES'', ''PURCHASES_FREQUENCY'', ''CASH_ADVANCE'',
    ''CREDIT_LIMIT'', ''PRC_FULL_PAYMENT'', ''CASH_ADVANCE_FREQUENCY''}
     \<subseteq> dom (columns two_customers)"
  by (simp add: two_customers_def)

lemma two_customers_rows: "nrows two_customers = 2"
  by (simp add: two_customers_def)

lemma two_customers_predict:
  "predict_clusters ln (\<lambda>_. ()) (\<lambda>_. ()) (\<lambda>_. labels) two_customers = Inr labels"
  using transform_analysis_present [OF two_customers_cols, of ln]
  by (simp add: predict_clusters_def)

lemma three_customers_cols: "set cols_log_analysis \<subseteq> dom (columns three_customers)"
  by (simp add: cols_log_analysis_def three_customers_def)

lemma three_customers_fields:
  "{''BALANCE'', ''PURCHASES'', ''PURCHASES_FREQUENCY'', ''CASH_ADVANCE'',
    ''CREDIT_LIMIT'', ''PRC_FULL_PAYMENT'', ''CASH_ADVANCE_FREQUENCY''}
     \<subseteq> dom (columns three_customers)"
  by (simp add: three_customers_def)

lemma three_customers_rows: "nrows three_customers = 3"
  by (simp add: three_customers_def)

lemma three_customers_predict:
  "predict_clusters ln (\<lambda>_. ()) (\<lambda>_. ()) (\<lambda>_. labels) three_customers = Inr labels"
  using transform_analysis_present [OF three_customers_cols, of ln]
  by (simp add: predict_clusters_def)

text \<open>
  With three customers, two in cluster 0 and one in cluster 1, the percentages are the
  float64 values 66.66666666666666 and 33.33333333333333 (written here as fractions):
  neither is 100 times the size divided by the row count, and their sum is not 100.
  (The natural logarithm stands for \<open>log64\<close> and the first entry of a column for
  \<open>mean64\<close>; the sizes and percentages do not depend on them.)
\<close>

theorem percentage_rounding_counterexample:
  "map_sum id (\<lambda>ca. (map_option info_percentage (ca 0), map_option info_percentage (ca 1)))
     (load_data_and_analyze_clusters ln hd (\<lambda>_. ()) (\<lambda>_. ()) (\<lambda>_. [0, 0, 1]) three_customers)
   = Inr (Some (Fin (4691249611844266 / 70368744177664)),
          Some (Fin (4691249611844266 / 140737488355328))) \<and>
   4691249611844266 / 70368744177664 \<noteq> (100 * 2 / 3 :: real) \<and>
   4691249611844266 / 140737488355328 \<noteq> (100 * 1 / 3 :: real) \<and>
   4691249611844266 / 70368744177664 + 4691249611844266 / 140737488355328 \<noteq> (100 :: real)"
proof -
  have h1: "predict_clusters ln (\<lambda>_. ()) (\<lambda>_. ()) (\<lambda>_. [0, 0, 1]) three_customers
      = Inr [0, 0, 1]"
    by (rule three_customers_predict)
  have h2: "length [0, 0, 1::int] = nrows three_customers"
    by (simp add: three_customers_rows)
  have h3: "0 < nrows three_customers"
    by (simp add: three_customers_rows)
  have n0: "length (filter (\<lambda>c. c = 0) [0, 0, 1::int]) = 2"
    and n1: "length (filter (\<lambda>c. c = 1) [0, 0, 1::int]) = 1"
    by simp_all
  from analysis_result [OF h1 h2 h3 three_customers_fields, of hd]
  obtain m0 d0 p0 m1 d1 p1 where
    ca: "load_data_and_analyze_clusters ln hd (\<lambda>_. ()) (\<lambda>_. ()) (\<lambda>_. [0, 0, 1]) three_customers =
       Inr [0 \<mapsto> \<lparr>info_means = m0, info_description = d0,
                   info_size = length (filter (\<lambda>c. c = 0) [0, 0, 1::int]),
                   info_percentage = p0\<rparr>,
            1 \<mapsto> \<lparr>info_means = m1, info_description = d1,
                   info_size = length (filter (\<lambda>c. c = 1) [0, 0, 1::int]),
                   info_percentage = p1\<rparr>]"
    and "percentage (length (filter (\<lambda>c. c = 0) [0, 0, 1::int])) (nrows three_customers) = Inr p0"
    and "percentage (length (filter (\<lambda>c. c = 1) [0, 0, 1::int])) (nrows three_customers) = Inr p1"
    by (elim exE conjE) (rule that)
  then have "p0 = Fin (4691249611844266 / 70368744177664)"
    and "p1 = Fin (4691249611844266 / 140737488355328)"
    unfolding n0 n1 three_customers_rows percentage_2_3 percentage_1_3 by simp_all
  then show ?thesis
    unfolding ca by simp
qed

text \<open>
  Claim C5, amended. For every non-empty frame in which every row is assigned cluster id
  0 or 1 (one label per row, and the frame holds the fields the rule reads), the analysis
  returns two entries whose sizes sum exactly to the row count. Each percentage is the
  float64 result of dividing the size by the row count and multiplying by 100, each
  operation rounded; it is within \<open>2 ^ -45\<close> of 100 times the size divided by the row
  count, and the two percentages sum to 100 within \<open>2 ^ -44\<close>.
\<close>

theorem analysis_sizes_percentages:
  assumes "predict_clusters log64 scaler pca kmeans df = Inr clusters"
    and "length clusters = nrows df"
    and "set clusters \<subseteq> {0, 1}"
    and "0 < nrows df"
    and "{''BALANCE'', ''PURCHASES'', ''PURCHASES_FREQUENCY'', ''CASH_ADVANCE'',
          ''CREDIT_LIMIT'', ''PRC_FULL_PAYMENT'', ''CASH_ADVANCE_FREQUENCY''}
           \<subseteq> dom (columns df)"
  shows "\<exists>ca i0 i1 q0 q1 p0 p1.
     load_data_and_analyze_clusters log64 mean64 scaler pca kmeans df = Inr ca \<and>
     dom ca = {0, 1} \<and> ca 0 = Some i0 \<and> ca 1 = Some i1 \<and>
     info_size i0 + info_size i1 = nrows df \<and>
     f64_round (real (info_size i0) / real (nrows df)) = Fin q0 \<and>
     info_percentage i0 = f64_round (q0 * 100) \<and> info_percentage i0 = Fin p0 \<and>
     f64_round (real (info_size i1) / real (nrows df)) = Fin q1 \<and>
     info_percentage i1 = f64_round (q1 * 100) \<and> info_percentage i1 = Fin p1 \<and>
     \<bar>p0 - 100 * real (info_size i0) / real (nrows df)\<bar> \<le> 1 / 2 ^ 45 \<and>
     \<bar>p1 - 100 * real (info_size i1) / real (nrows df)\<bar> \<le> 1 / 2 ^ 45 \<and>
     \<bar>p0 + p1 - 100\<bar> \<le> 1 / 2 ^ 44"
proof -
  let ?a = "length (filter (\<lambda>c. c = 0) clusters)"
  let ?b = "length (filter (\<lambda>c. c = 1) clusters)"
  let ?rows = "nrows df"
  from analysis_result [OF assms(1,2,4,5), of mean64]
  obtain m0 d0 r0 m1 d1 r1 where
    ca: "load_data_and_analyze_clusters log64 mean64 scaler pca kmeans df =
       Inr [0 \<mapsto> \<lparr>info_means = m0, info_description = d0, info_size = ?a,
                   info_percentage = r0\<rparr>,
            1 \<mapsto> \<lparr>info_means = m1, info_description = d1, info_size = ?b,
                   info_percentage = r1\<rparr>]"
    and r0: "percentage ?a ?rows = Inr r0" and r1: "percentage ?b ?rows = Inr r1"
    by (elim exE conjE) (rule that)
  have sum: "?a + ?b = ?rows"
    using two_clusters_cover [OF assms(3)] assms(2) by simp
  then have le: "?a \<le> ?rows" "?b \<le> ?rows"
    by simp_all
  from percentage_close [OF assms(4) le(1)] r0
  obtain q0 p0 where q0: "f64_round (real ?a / real ?rows) = Fin q0"
    and p0: "f64_round (q0 * 100) = Fin p0" "r0 = Fin p0"
    and e0: "\<bar>p0 - 100 * real ?a / real ?rows\<bar> \<le> 1 / 2 ^ 45"
    by auto
  from percentage_close [OF assms(4) le(2)] r1
  obtain q1 p1 where q1: "f64_round (real ?b / real ?rows) = Fin q1"
    and p1: "f64_round (q1 * 100) = Fin p1" "r1 = Fin p1"
    and e1: "\<bar>p1 - 100 * real ?b / real ?rows\<bar> \<le> 1 / 2 ^ 45"
    by auto
  have "real ?a + real ?b = real ?rows"
    using sum by (metis of_nat_add)
  then have "100 * real ?a / real ?rows + 100 * real ?b / real ?rows = 100"
    using assms(4) by (simp add: field_simps)
  with e0 e1 have "\<bar>p0 + p1 - 100\<bar> \<le> 1 / 2 ^ 45 + 1 / 2 ^ 45"
    by linarith
  also have "\<dots> = (1::real) / 2 ^ 44"
    by simp
  finally have es: "\<bar>p0 + p1 - 100\<bar> \<le> 1 / 2 ^ 44" .
  show ?thesis
    unfolding ca using sum q0 p0 e0 q1 p1 e1 es by (auto intro!: exI)
qed

theorem analysis_sizes_percentages_witness:
  "predict_clusters ln (\<lambda>_. ()) (\<lambda>_. ()) (\<lambda>_. [0, 1]) two_customers = Inr [0, 1] \<and>
   length [0, 1::int] = nrows two_customers \<and>
   set [0, 1::int] \<subseteq> {0, 1} \<and>
   0 < nrows two_customers \<and>
   {''BALANCE'', ''PURCHASES'', ''PURCHASES_FREQUENCY'', ''CASH_ADVANCE'',
    ''CREDIT_LIMIT'', ''PRC_FULL_PAYMENT'', ''CASH_ADVANCE_FREQUENCY''}
     \<subseteq> dom (columns two_customers) \<and>
   (\<exists>ca i0 i1 q0 q1 p0 p1.
      load_data_and_analyze_clusters ln hd (\<lambda>_. ()) (\<lambda>_. ()) (\<lambda>_. [0, 1]) two_customers
        = Inr ca \<and>
      dom ca = {0, 1} \<and> ca 0 = Some i0 \<and> ca 1 = Some i1 \<and>
      info_size i0 + info_size i1 = nrows two_customers \<and>
      f64_round (real (info_size i0) / real (nrows two_customers)) = Fin q0 \<and>
      info_percentage i0 = f64_round (q0 * 100) \<and> info_percentage i0 = Fin p0 \<and>
      f64_round (real (info_size i1) / real (nrows two_customers)) = Fin q1 \<and>
      info_percentage i1 = f64_round (q1 * 100) \<and> info_percentage i1 = Fin p1 \<and>
      \<bar>p0 - 100 * real (info_size i0) / real (nrows two_customers)\<bar> \<le> 1 / 2 ^ 45 \<and>
      \<bar>p1 - 100 * real (info_size i1) / real (nrows two_customers)\<bar> \<le> 1 / 2 ^ 45 \<and>
      \<bar>p0 + p1 - 100\<bar> \<le> 1 / 2 ^ 44)"
proof -
  have h1: "predict_clusters ln (\<lambda>_. ()) (\<lambda>_. ()) (\<lambda>_. [0, 1]) two_customers = Inr [0, 1]"
    by (rule two_customers_predict)
  have h2: "length [0, 1::int] = nrows two_customers"
    by (simp add: two_customers_rows)
  have h3: "set [0, 1::int] \<subseteq> {0, 1}"
    by simp
  have h4: "0 < nrows two_customers"
    by (simp add: two_customers_rows)
  from h1 h2 h3 h4 two_customers_fields
    analysis_sizes_percentages [OF h1 h2 h3 h4 two_customers_fields, of hd]
  show ?thesis
    by (intro conjI)
qed

text \<open>
  When both customers are given cluster 0, the returned dict still has an entry under
  key 1: the lookup of line 312 succeeds there, with size 0 and percentage 0.
\<close>

theorem empty_cluster_counterexample:
  "map_sum id (\<lambda>i. (info_size i, info_percentage i))
     (bindE (load_data_and_analyze_clusters ln hd (\<lambda>_. ()) (\<lambda>_. ()) (\<lambda>_. [0, 0]) two_customers)
        (\<lambda>cluster_analysis. cluster_analysis_getitem cluster_analysis 1))
   = Inr (0, Fin 0)"
proof -
  have h1: "predict_clusters ln (\<lambda>_. ()) (\<lambda>_. ()) (\<lambda>_. [0, 0]) two_customers = Inr [0, 0]"
    by (rule two_customers_predict)
  have h2: "length [0, 0::int] = nrows two_customers"
    by (simp add: two_customers_rows)
  have h4: "0 < nrows two_customers"
    by (simp add: two_customers_rows)
  from analysis_result [OF h1 h2 h4 two_customers_fields, of hd]
  obtain m0 d0 p0 m1 d1 p1 where
    ca: "load_data_and_analyze_clusters ln hd (\<lambda>_. ()) (\<lambda>_. ()) (\<lambda>_. [0, 0]) two_customers =
       Inr [0 \<mapsto> \<lparr>info_means = m0, info_description = d0,
                   info_size = length (filter (\<lambda>c. c = 0) [0, 0::int]),
                   info_percentage = p0\<rparr>,
            1 \<mapsto> \<lparr>info_means = m1, info_description = d1,
                   info_size = length (filter (\<lambda>c. c = 1) [0, 0::int]),
                   info_percentage = p1\<rparr>]"
    and "percentage (length (filter (\<lambda>c. c = 1) [0, 0::int])) (nrows two_customers) = Inr p1"
    by (elim exE conjE) (rule that)
  then have "p1 = Fin 0"
    using percentage_0 [OF h4] by simp
  then show ?thesis
    unfolding ca by (simp add: cluster_analysis_getitem_def)
qed

text \<open>
  Claim C4, amended. For every non-empty frame with one label per row, the dict returned
  by the analysis has exactly the keys 0 and 1, also when no row carries one of these
  ids: the lookup of such an id succeeds and gives an entry of size 0 and percentage 0.
  Only ids other than 0 and 1 have no entry.
\<close>

theorem empty_cluster_entry:
  assumes "predict_clusters log64 scaler pca kmeans df = Inr clusters"
    and "length clusters = nrows df"
    and "0 < nrows df"
    and "{''BALANCE'', ''PURCHASES'', ''PURCHASES_FREQUENCY'', ''CASH_ADVANCE'',
          ''CREDIT_LIMIT'', ''PRC_FULL_PAYMENT'', ''CASH_ADVANCE_FREQUENCY''}
           \<subseteq> dom (columns df)"
    and "cid \<in> {0, 1}" and "cid \<notin> set clusters"
  shows "\<exists>ca i. load_data_and_analyze_clusters log64 mean64 scaler pca kmeans df = Inr ca \<and>
     dom ca = {0, 1} \<and>
     cluster_analysis_getitem ca cid = Inr i \<and> info_size i = 0 \<and> info_percentage i = Fin 0"
proof -
  from analysis_result [OF assms(1-4), of mean64]
  obtain m0 d0 p0 m1 d1 p1 where
    ca: "load_data_and_analyze_clusters log64 mean64 scaler pca kmeans df =
       Inr [0 \<mapsto> \<lparr>info_means = m0, info_description = d0,
                   info_size = length (filter (\<lambda>c. c = 0) clusters),
                   info_percentage = p0\<rparr>,
            1 \<mapsto> \<lparr>info_means = m1, info_description = d1,
                   info_size = length (filter (\<lambda>c. c = 1) clusters),
                   info_percentage = p1\<rparr>]"
    and p0: "percentage (length (filter (\<lambda>c. c = 0) clusters)) (nrows df) = Inr p0"
    and p1: "percentage (length (filter (\<lambda>c. c = 1) clusters)) (nrows df) = Inr p1"
    by (elim exE conjE) (rule that)
  have empty: "filter (\<lambda>c. c = cid) clusters = []"
    using assms(6) by (induction clusters) auto
  from assms(5) consider "cid = 0" | "cid = 1"
    by auto
  then show ?thesis
  proof cases
    case 1
    with empty p0 percentage_0 [OF assms(3)] have "p0 = Fin 0"
      by simp
    with 1 empty show ?thesis
      unfolding ca by (auto simp: cluster_analysis_getitem_def)
  next
    case 2
    with empty p1 percentage_0 [OF assms(3)] have "p1 = Fin 0"
      by simp
    with 2 empty show ?thesis
      unfolding ca by (auto simp: cluster_analysis_getitem_def)
  qed
qed

theorem empty_cluster_entry_witness:
  "predict_clusters ln (\<lambda>_. ()) (\<lambda>_. ()) (\<lambda>_. [1, 1]) two_customers = Inr [1, 1] \<and>
   length [1, 1::int] = nrows two_customers \<and>
   0 < nrows two_customers \<and>
   {''BALANCE'', ''PURCHASES'', ''PURCHASES_FREQUENCY'', ''CASH_ADVANCE'',
    ''CREDIT_LIMIT'', ''PRC_FULL_PAYMENT'', ''CASH_ADVANCE_FREQUENCY''}
     \<subseteq> dom (columns two_customers) \<and>
   (0::int) \<in> {0, 1} \<and> (0::int) \<notin> set [1, 1] \<and>
   (\<exists>ca i.
      load_data_and_analyze_clusters ln hd (\<lambda>_. ()) (\<lambda>_. ()) (\<lambda>_. [1, 1]) two_customers
        = Inr ca \<and>
      dom ca = {0, 1} \<and>
      cluster_analysis_getitem ca 0 = Inr i \<and> info_size i = 0 \<and> info_percentage i = Fin 0)"
proof -
  have h1: "predict_clusters ln (\<lambda>_. ()) (\<lambda>_. ()) (\<lambda>_. [1, 1]) two_customers = Inr [1, 1]"
    by (rule two_customers_predict)
  have h2: "length [1, 1::int] = nrows two_customers"
    by (simp add: two_customers_rows)
  have h3: "0 < nrows two_customers"
    by (simp add: two_customers_rows)
  have h5: "(0::int) \<in> {0, 1}"
    by simp
  have h6: "(0::int) \<notin> set [1, 1]"
    by simp
  from h1 h2 h3 two_customers_fields h5 h6
    empty_cluster_entry [OF h1 h2 h3 two_customers_fields h5 h6, of hd]
  show ?thesis
    by (intro conjI)
qed

end
